theory Spec2Isabelle
  imports
    Complex_Main
    "HOL-Library.Char_ord"
    "HOL-Library.List_Lexorder"
    "HOL-Library.Product_Lexorder"
    "HOL-Library.Multiset"
begin

section \<open>Data model\<close>

text \<open>
  The report generator works on pandas data frames built from DynamoDB items.
  A cell of a raw column is a missing attribute (\<open>NaN\<close>), Python's \<open>None\<close>, a string, or
  a whole number (DynamoDB numbers arrive as \<open>Decimal\<close>; fractional numbers are outside
  this cell type). Strings are ASCII text, one \<open>char\<close> per character.

  An instant is a pandas \<open>Timestamp\<close> in UTC: nanoseconds since the epoch. The derived
  column \<open>createdAt_dt\<close> is kept in a typed field of the row (\<open>None\<close> is \<open>NaT\<close>); it is
  part of the frame exactly when its name is in \<open>columns\<close>. A column of that name in an
  input frame is therefore taken to hold instants, as \<open>coerce_created_at\<close> produces them.
\<close>

type_synonym instant = int

datatype cell = NaN | PyNone | Str string | Num int

record row =
  cells :: "string \<Rightarrow> cell"
  createdAt_dt :: "instant option"

record frame =
  columns :: "string list"
  rows :: "row list"

datatype error = TypeError | ValueError | AttributeError | RuntimeError | OutOfBoundsDatetime

datatype time_unit = Seconds | Millis

text \<open>
  The pandas conversions the code calls are not code of this repository; they are
  parameters of the model:
  \<^item> \<open>to_numeric\<close>: \<open>pd.to_numeric(x, errors='coerce')\<close> on one element, the exact value of
    the finite float it yields, \<open>None\<close> for \<open>NaN\<close> (infinities are not represented);
  \<^item> \<open>to_datetime_unit\<close>: \<open>pd.to_datetime(x, unit=u, utc=True, errors='coerce')\<close> on one
    number;
  \<^item> \<open>to_datetime\<close>: \<open>pd.to_datetime(x, utc=True)\<close> on one scalar, as the date range calls
    it, \<open>None\<close> where it raises;
  \<^item> \<open>to_datetime_column\<close>: \<open>pd.to_datetime(column, utc=True, errors='coerce')\<close> on a whole
    column of raw cells, as the timestamp normalizer calls it: \<open>to_datetime_column L xs i\<close>
    is the value of the result at position \<open>i\<close>. The library settles how to read the
    column from the column as a whole, so the value at one position may depend on the
    cells at the other positions, and nothing ties it to the scalar conversion;
  \<^item> \<open>now\<close>: \<open>datetime.now(UTC)\<close>.
\<close>

record pandas =
  to_numeric :: "cell \<Rightarrow> rat option"
  to_datetime_unit :: "time_unit \<Rightarrow> rat \<Rightarrow> instant option"
  to_datetime :: "cell \<Rightarrow> instant option"
  to_datetime_column :: "cell list \<Rightarrow> nat \<Rightarrow> instant option"
  now :: instant

definition isna :: "cell \<Rightarrow> bool" where
  "isna c = (case c of NaN \<Rightarrow> True | PyNone \<Rightarrow> True | _ \<Rightarrow> False)"

text \<open>\<open>df.empty\<close>: an axis of length zero.\<close>

definition empty :: "frame \<Rightarrow> bool" where
  "empty df = (columns df = [] \<or> rows df = [])"

section \<open>Configuration\<close>

definition METRICS_USAGE_TYPE_MAP :: "(string \<times> string list) list" where
  "METRICS_USAGE_TYPE_MAP =
    [(''Logins'', []),
     (''Uploads'', []),
     (''Generated Transcripts'', [''transcript'']),
     (''Regenerated Transcripts'', [''regenerate transcript'']),
     (''Initial Summaries'', [''initial summary'']),
     (''Regenerated Summaries'', [''regenerate summary'']),
     (''Regenerated Notes'', [''regenerate note''])]"

definition ACCOUNT_ALIASES :: "string list" where
  "ACCOUNT_ALIASES =
    [''account'', ''email'', ''user'', ''user_id'', ''userId'',
     ''user_email'', ''userEmail'', ''emailAddress'', ''user_email_address'']"

definition USERNAME_ALIASES :: "string list" where
  "USERNAME_ALIASES = [''username'', ''user_name'', ''name'', ''displayName'']"

definition USAGE_TYPE_ALIASES :: "string list" where
  "USAGE_TYPE_ALIASES =
    [''usage_type'', ''usageType'', ''type'', ''action'', ''event'', ''event_type'']"

definition CREATED_AT_ALIASES :: "string list" where
  "CREATED_AT_ALIASES =
    [''createdAt'', ''created_at'', ''timestamp'', ''createdOn'',
     ''created_at_ms'', ''created_at_iso'']"

section \<open>Schema resolver\<close>

fun find_first_column :: "frame \<Rightarrow> string list \<Rightarrow> string option" where
  "find_first_column df [] = None"
| "find_first_column df (c # candidates) =
     (if c \<in> set (columns df) then Some c else find_first_column df candidates)"

section \<open>Date range\<close>

definition day_ns :: int where
  "day_ns = 86400 * 1000000000"

definition second_ns :: int where
  "second_ns = 1000000000"

definition microsecond_ns :: int where
  "microsecond_ns = 1000"

text \<open>
  A \<open>Timestamp\<close> is a signed 64-bit count of nanoseconds, the least value standing for
  \<open>NaT\<close>; \<open>Timestamp\<close> plus \<open>Timedelta\<close> raises when the sum leaves the range.
\<close>

definition in_bounds :: "int \<Rightarrow> bool" where
  "in_bounds t = (- (2 ^ 63) < t \<and> t < 2 ^ 63)"

text \<open>
  \<open>Timestamp.normalize()\<close>: midnight of the same UTC day. The library subtracts the time of
  day in 64-bit arithmetic and checks nothing: for an instant within a day of the least
  \<open>Timestamp\<close> (in September 1677) the midnight lies below the range, and the result wraps
  around to an instant in the year 2262.
\<close>

definition normalize :: "instant \<Rightarrow> instant" where
  "normalize t =
     (let midnight = t - t mod day_ns
      in if in_bounds t \<and> midnight < - (2 ^ 63) then midnight + 2 ^ 64 else midnight)"

definition ts_add :: "instant \<Rightarrow> int \<Rightarrow> error + instant" where
  "ts_add t d = (if in_bounds (t + d) then Inr (t + d) else Inl OutOfBoundsDatetime)"

text \<open>\<open>pd.to_datetime(s, utc=True)\<close> on one string, errors raised.\<close>

definition to_datetime_raise :: "pandas \<Rightarrow> string \<Rightarrow> error + instant" where
  "to_datetime_raise L s =
     (case to_datetime L (Str s) of None \<Rightarrow> Inl ValueError | Some t \<Rightarrow> Inr t)"

definition end_of_day :: "instant \<Rightarrow> error + instant" where
  "end_of_day t =
     (case ts_add t day_ns of
        Inl e \<Rightarrow> Inl e
      | Inr t1 \<Rightarrow> ts_add t1 (- second_ns))"

text \<open>
  An absent argument and the empty string are both false in \<open>if end_date_str:\<close>.
\<close>

definition resolve_date_range ::
  "pandas \<Rightarrow> string option \<Rightarrow> string option \<Rightarrow> error + (instant \<times> instant)" where
  "resolve_date_range L start_date_str end_date_str =
     (case (case end_date_str of
              Some (c # cs) \<Rightarrow>
                (case to_datetime_raise L (c # cs) of
                   Inl e \<Rightarrow> Inl e
                 | Inr t \<Rightarrow> end_of_day t)
            | _ \<Rightarrow> end_of_day (normalize (now L))) of
        Inl e \<Rightarrow> Inl e
      | Inr end_dt \<Rightarrow>
          (case (case start_date_str of
                   Some (c # cs) \<Rightarrow> to_datetime_raise L (c # cs)
                 | _ \<Rightarrow>
                     (case ts_add end_dt (- (29 * day_ns)) of
                        Inl e \<Rightarrow> Inl e
                      | Inr t \<Rightarrow> Inr (normalize t))) of
             Inl e \<Rightarrow> Inl e
           | Inr start_dt \<Rightarrow> Inr (start_dt, end_dt)))"

section \<open>Timestamp normalizer\<close>

text \<open>\<open>Series.max()\<close> skips \<open>NaN\<close>; it is \<open>NaN\<close> when nothing else is there.\<close>

fun series_max :: "rat option list \<Rightarrow> rat option" where
  "series_max [] = None"
| "series_max (None # xs) = series_max xs"
| "series_max (Some x # xs) =
     (case series_max xs of None \<Rightarrow> Some x | Some m \<Rightarrow> Some (max x m))"

definition notna_count :: "rat option list \<Rightarrow> nat" where
  "notna_count xs = length (filter (\<lambda>x. x \<noteq> None) xs)"

text \<open>
  \<open>numeric_timestamps.notna().mean() > 0.5\<close>: the share of converted values is a quotient
  of two counts, and it exceeds one half exactly when twice the count exceeds the length.
\<close>

definition numeric_majority :: "rat option list \<Rightarrow> bool" where
  "numeric_majority xs = (2 * notna_count xs > length xs)"

definition exceeds_1e12 :: "rat option list \<Rightarrow> bool" where
  "exceeds_1e12 xs = (case series_max xs of None \<Rightarrow> False | Some m \<Rightarrow> m > 10 ^ 12)"

definition from_epoch :: "pandas \<Rightarrow> time_unit \<Rightarrow> rat option \<Rightarrow> instant option" where
  "from_epoch L u x = (case x of None \<Rightarrow> None | Some n \<Rightarrow> to_datetime_unit L u n)"

text \<open>
  \<open>df[name] = coerced\<close> for the derived column: the series \<open>coerced\<close> has the index of the
  frame, and each row takes the value at its position.
\<close>

definition assign_createdAt_dt :: "instant option list \<Rightarrow> frame \<Rightarrow> frame" where
  "assign_createdAt_dt coerced df =
     \<lparr>columns = (if ''createdAt_dt'' \<in> set (columns df) then columns df
                 else columns df @ [''createdAt_dt'']),
      rows = map (\<lambda>(r, t). r\<lparr>createdAt_dt := t\<rparr>) (zip (rows df) coerced)\<rparr>"

text \<open>
  The numeric reading converts the numbers one by one. The date/time reading is one call
  on the raw column.
\<close>

definition coerce_created_at :: "pandas \<Rightarrow> frame \<Rightarrow> frame" where
  "coerce_created_at L df =
     (if empty df then df
      else case find_first_column df CREATED_AT_ALIASES of
        None \<Rightarrow> df
      | Some created_col \<Rightarrow>
          (let raw = map (\<lambda>r. cells r created_col) (rows df);
               numeric_timestamps = map (to_numeric L) raw
           in if numeric_majority numeric_timestamps
              then (if exceeds_1e12 numeric_timestamps
                    then assign_createdAt_dt (map (from_epoch L Millis) numeric_timestamps) df
                    else assign_createdAt_dt (map (from_epoch L Seconds) numeric_timestamps) df)
              else assign_createdAt_dt (map (to_datetime_column L raw) [0 ..< length raw]) df))"

section \<open>Date-range filter\<close>

definition in_range :: "instant \<Rightarrow> instant \<Rightarrow> row \<Rightarrow> bool" where
  "in_range start_dt end_dt r =
     (case createdAt_dt r of None \<Rightarrow> False | Some t \<Rightarrow> start_dt \<le> t \<and> t \<le> end_dt)"

definition all_na :: "frame \<Rightarrow> bool" where
  "all_na df = list_all (\<lambda>r. createdAt_dt r = None) (rows df)"

definition filter_by_date :: "pandas \<Rightarrow> frame \<Rightarrow> instant \<Rightarrow> instant \<Rightarrow> frame" where
  "filter_by_date L df start_dt end_dt =
     (if empty df then df
      else let df1 = (if ''createdAt_dt'' \<notin> set (columns df) then coerce_created_at L df
                      else df)
           in if ''createdAt_dt'' \<notin> set (columns df1) \<or> all_na df1
              then df1\<lparr>rows := []\<rparr>
              else df1\<lparr>rows := filter (in_range start_dt end_dt) (rows df1)\<rparr>)"

section \<open>Account identity\<close>

text \<open>\<open>str(n)\<close> for a whole number.\<close>

fun str_of_nat :: "nat \<Rightarrow> string" where
  "str_of_nat n =
     (if n < 10 then [char_of (48 + n)]
      else str_of_nat (n div 10) @ [char_of (48 + n mod 10)])"

text \<open>\<open>Series.astype(str)\<close> on one cell.\<close>

fun astype_str :: "cell \<Rightarrow> string" where
  "astype_str NaN = ''nan''"
| "astype_str PyNone = ''None''"
| "astype_str (Str s) = s"
| "astype_str (Num n) = (if n < 0 then CHR ''-'' # str_of_nat (nat (- n)) else str_of_nat (nat n))"

text \<open>
  \<open>str.strip()\<close> and \<open>str.lower()\<close> on ASCII text: white space is tab, line feed,
  vertical tab, form feed, carriage return, the four separators 28 to 31 and the space.
\<close>

definition is_space :: "char \<Rightarrow> bool" where
  "is_space c = ((9 \<le> (of_char c :: nat) \<and> (of_char c :: nat) \<le> 13)
                 \<or> (28 \<le> (of_char c :: nat) \<and> (of_char c :: nat) \<le> 32))"

definition py_strip :: "string \<Rightarrow> string" where
  "py_strip s = rev (dropWhile is_space (rev (dropWhile is_space s)))"

definition lower_char :: "char \<Rightarrow> char" where
  "lower_char c =
     (if 65 \<le> (of_char c :: nat) \<and> (of_char c :: nat) \<le> 90
      then char_of ((of_char c :: nat) + 32) else c)"

definition py_lower :: "string \<Rightarrow> string" where
  "py_lower s = map lower_char s"

definition endswith :: "string \<Rightarrow> string \<Rightarrow> bool" where
  "endswith s suffix = (take (length suffix) (rev s) = rev suffix)"

text \<open>\<open>col.astype(str).str.strip().str.lower()\<close> on one cell.\<close>

definition normalize_account :: "cell \<Rightarrow> string" where
  "normalize_account c = py_lower (py_strip (astype_str c))"

section \<open>Frame operations\<close>

definition map_column :: "string \<Rightarrow> (cell \<Rightarrow> cell) \<Rightarrow> frame \<Rightarrow> frame" where
  "map_column col f df =
     df\<lparr>rows := map (\<lambda>r. r\<lparr>cells := (cells r)(col := f (cells r col))\<rparr>) (rows df)\<rparr>"

text \<open>\<open>df[col] = v\<close> for a column that may be new, one constant for every row.\<close>

definition assign_const :: "string \<Rightarrow> cell \<Rightarrow> frame \<Rightarrow> frame" where
  "assign_const col v df =
     \<lparr>columns = (if col \<in> set (columns df) then columns df else columns df @ [col]),
      rows = map (\<lambda>r. r\<lparr>cells := (cells r)(col := v)\<rparr>) (rows df)\<rparr>"

text \<open>
  \<open>df.rename(columns={old: new})\<close>: nothing happens when there is no column \<open>old\<close>.
\<close>

definition rename_column :: "string \<Rightarrow> string \<Rightarrow> frame \<Rightarrow> frame" where
  "rename_column old new df =
     (if old \<notin> set (columns df) then df
      else \<lparr>columns = map (\<lambda>c. if c = old then new else c) (columns df),
            rows = map (\<lambda>r. r\<lparr>cells := (\<lambda>c. if c = new then cells r old
                                               else if c = old then NaN else cells r c)\<rparr>)
                     (rows df)\<rparr>)"

text \<open>\<open>df[[c1, c2, ...]]\<close>: the listed columns, which the callers have made sure exist.\<close>

definition select_columns :: "string list \<Rightarrow> frame \<Rightarrow> frame" where
  "select_columns cols df =
     \<lparr>columns = cols,
      rows = map (\<lambda>r. \<lparr>cells = (\<lambda>c. if c \<in> set cols then cells r c else NaN),
                       createdAt_dt = (if ''createdAt_dt'' \<in> set cols then createdAt_dt r
                                       else None)\<rparr>) (rows df)\<rparr>"

text \<open>
  \<open>groupby(col).size().reset_index(name="count")\<close>: one row per distinct key, keys in
  ascending order. The key column has been through \<open>astype(str)\<close>, so every key is a string.
\<close>

definition group_keys :: "string \<Rightarrow> row list \<Rightarrow> string list" where
  "group_keys col rs =
     sort (remdups (concat (map (\<lambda>r. case cells r col of Str s \<Rightarrow> [s] | _ \<Rightarrow> []) rs)))"

definition group_size :: "string \<Rightarrow> row list \<Rightarrow> string \<Rightarrow> nat" where
  "group_size col rs k = length (filter (\<lambda>r. cells r col = Str k) rs)"

definition groupby_size :: "string \<Rightarrow> row list \<Rightarrow> frame" where
  "groupby_size col rs =
     \<lparr>columns = [col, ''count''],
      rows = map (\<lambda>k. \<lparr>cells = (\<lambda>c. if c = ''count'' then Num (int (group_size col rs k))
                                   else if c = col then Str k else NaN),
                       createdAt_dt = None\<rparr>) (group_keys col rs)\<rparr>"

text \<open>
  \<open>left.merge(right, on=key, how="left")\<close>: every left row in order, once per right row
  with the same key, and once with \<open>NaN\<close> in the right columns when there is none. The
  callers never share a column other than the key between the two frames.
\<close>

definition merge_left :: "frame \<Rightarrow> frame \<Rightarrow> string \<Rightarrow> frame" where
  "merge_left left right on =
     (let new_cols = filter (\<lambda>c. c \<noteq> on) (columns right)
      in \<lparr>columns = columns left @ new_cols,
          rows = concat (map (\<lambda>l.
                   case filter (\<lambda>r. cells r on = cells l on) (rows right) of
                     [] \<Rightarrow> [l\<lparr>cells := (\<lambda>c. if c \<in> set new_cols then NaN else cells l c)\<rparr>]
                   | ms \<Rightarrow> map (\<lambda>r. l\<lparr>cells := (\<lambda>c. if c \<in> set new_cols then cells r c
                                                       else cells l c)\<rparr>) ms)
                 (rows left))\<rparr>)"

section \<open>Per-account aggregator\<close>

definition empty_counts :: frame where
  "empty_counts = \<lparr>columns = [''account'', ''count''], rows = []\<rparr>"

definition isin :: "cell \<Rightarrow> string list \<Rightarrow> bool" where
  "isin c values = (case c of Str s \<Rightarrow> s \<in> set values | _ \<Rightarrow> False)"

definition count_usage_by_account :: "frame \<Rightarrow> string list \<Rightarrow> frame" where
  "count_usage_by_account usage_df usage_types =
     (if empty usage_df \<or> usage_types = [] then empty_counts
      else case find_first_column usage_df ACCOUNT_ALIASES of
        None \<Rightarrow> empty_counts
      | Some account_col \<Rightarrow>
          (case find_first_column usage_df USAGE_TYPE_ALIASES of
             None \<Rightarrow> empty_counts
           | Some usage_type_col \<Rightarrow>
               (let df_norm = map_column account_col (\<lambda>c. Str (normalize_account c)) usage_df;
                    subset = filter (\<lambda>r. isin (cells r usage_type_col) usage_types) (rows df_norm);
                    grouped = groupby_size account_col subset
                in rename_column account_col ''account'' grouped)))"

definition count_askai_by_account :: "frame \<Rightarrow> frame" where
  "count_askai_by_account askai_df =
     (if empty askai_df then empty_counts
      else case find_first_column askai_df ACCOUNT_ALIASES of
        None \<Rightarrow> empty_counts
      | Some account_col \<Rightarrow>
          (let df_norm = map_column account_col (\<lambda>c. Str (normalize_account c)) askai_df;
               grouped = groupby_size account_col (rows df_norm)
           in rename_column account_col ''account'' grouped))"

section \<open>Report assembler\<close>

definition REPORT_COLUMNS :: "string list" where
  "REPORT_COLUMNS =
    [''Account'', ''Username'', ''Logins'', ''Uploads'', ''Generated Transcripts'',
     ''Regenerated Transcripts'', ''Initial Summaries'', ''Regenerated Summaries'',
     ''Regenerated Notes'', ''AskAI Questions'']"

definition columns_to_fill :: "string list" where
  "columns_to_fill =
    [''Logins'', ''Uploads'', ''Generated Transcripts'', ''Regenerated Transcripts'',
     ''Initial Summaries'', ''Regenerated Summaries'', ''Regenerated Notes'',
     ''AskAI Questions'']"

text \<open>\<open>Series.str.endswith(suffix, na=False)\<close> on one cell.\<close>

definition str_endswith :: "cell \<Rightarrow> string \<Rightarrow> bool" where
  "str_endswith c suffix = (case c of Str s \<Rightarrow> endswith s suffix | _ \<Rightarrow> False)"

text \<open>
  Lines 213 to 226: the roster with its identity and label columns resolved, the
  identity normalized, internal accounts removed, and the two columns kept.
\<close>

definition roster_base :: "frame \<Rightarrow> frame" where
  "roster_base accounts_df =
     (let acct_col = find_first_column accounts_df ACCOUNT_ALIASES;
          user_col = find_first_column accounts_df USERNAME_ALIASES;
          base1 = (case acct_col of
                     None \<Rightarrow> accounts_df
                   | Some c \<Rightarrow> if c \<noteq> ''account'' then rename_column c ''account'' accounts_df
                              else accounts_df);
          base2 = (case user_col of
                     None \<Rightarrow> base1
                   | Some c \<Rightarrow> if c \<noteq> ''username'' then rename_column c ''username'' base1
                              else base1);
          base3 = (if ''account'' \<notin> set (columns base2) then assign_const ''account'' PyNone base2
                   else base2);
          base4 = (if ''username'' \<notin> set (columns base3) then assign_const ''username'' PyNone base3
                   else base3);
          base5 = map_column ''account'' (\<lambda>c. Str (normalize_account c)) base4;
          base6 = base5\<lparr>rows := filter (\<lambda>r. \<not> str_endswith (cells r ''account'') ''@thinkcol.com'')
                                   (rows base5)\<rparr>
      in rename_column ''username'' ''Username''
           (rename_column ''account'' ''Account''
              (select_columns [''account'', ''username''] base6)))"

text \<open>Lines 228 to 230, the body of the loop over the metric table.\<close>

definition merge_metric :: "frame \<Rightarrow> string \<times> string list \<Rightarrow> frame \<Rightarrow> frame" where
  "merge_metric usage_df m report =
     (let grouped = count_usage_by_account usage_df (snd m);
          grouped = rename_column ''count'' (fst m) (rename_column ''account'' ''Account'' grouped)
      in merge_left report grouped ''Account'')"

text \<open>Lines 231 and 232.\<close>

definition merge_askai :: "frame \<Rightarrow> frame \<Rightarrow> frame" where
  "merge_askai askai_df report =
     (let askai_grouped = rename_column ''count'' ''AskAI Questions''
                            (rename_column ''account'' ''Account'' (count_askai_by_account askai_df))
      in merge_left report askai_grouped ''Account'')"

text \<open>
  \<open>report[col].fillna(0).astype(int)\<close>. A count column holds counts and \<open>NaN\<close> only
  (lemma \<open>merged_not_Str\<close> below), so the conversion of text never runs; it is modelled
  as the error Python raises for text that is not a number.
\<close>

fun fillna0 :: "cell \<Rightarrow> cell" where
  "fillna0 NaN = Num 0"
| "fillna0 PyNone = Num 0"
| "fillna0 c = c"

fun astype_int :: "cell \<Rightarrow> error + cell" where
  "astype_int (Num n) = Inr (Num n)"
| "astype_int (Str s) = Inl ValueError"
| "astype_int NaN = Inl ValueError"
| "astype_int PyNone = Inl TypeError"

fun astype_int_rows :: "string \<Rightarrow> row list \<Rightarrow> error + row list" where
  "astype_int_rows col [] = Inr []"
| "astype_int_rows col (r # rs) =
     (case astype_int (fillna0 (cells r col)) of
        Inl e \<Rightarrow> Inl e
      | Inr v \<Rightarrow>
          (case astype_int_rows col rs of
             Inl e \<Rightarrow> Inl e
           | Inr rs' \<Rightarrow> Inr (r\<lparr>cells := (cells r)(col := v)\<rparr> # rs')))"

definition fill_column :: "string \<Rightarrow> frame \<Rightarrow> error + frame" where
  "fill_column col df =
     (let df1 = (if col \<notin> set (columns df) then assign_const col (Num 0) df else df)
      in case astype_int_rows col (rows df1) of
           Inl e \<Rightarrow> Inl e
         | Inr rs \<Rightarrow> Inr (df1\<lparr>rows := rs\<rparr>))"

fun fill_columns :: "string list \<Rightarrow> frame \<Rightarrow> error + frame" where
  "fill_columns [] df = Inr df"
| "fill_columns (col # cols) df =
     (case fill_column col df of
        Inl e \<Rightarrow> Inl e
      | Inr df' \<Rightarrow> fill_columns cols df')"

text \<open>
  \<open>sort_values(by=cols, kind="stable", na_position="last")\<close>. Numbers are ordered among
  themselves and strings among themselves (by code point, a proper prefix first). With
  several key columns pandas sorts the rows by the rank of each key among the distinct
  values of its column, and ranks a column that holds numbers and strings with the numbers
  first: nothing is raised. With one key column it compares the values themselves, and
  Python's comparison of a number with a string raises \<open>TypeError\<close>. In both cases nulls go
  last and rows with equal keys keep their order.
\<close>

definition is_Str :: "cell \<Rightarrow> bool" where
  "is_Str c = (case c of Str s \<Rightarrow> True | _ \<Rightarrow> False)"

definition is_Num :: "cell \<Rightarrow> bool" where
  "is_Num c = (case c of Num n \<Rightarrow> True | _ \<Rightarrow> False)"

definition cell_key :: "cell \<Rightarrow> bool \<times> bool \<times> int \<times> string" where
  "cell_key c =
     (isna c, is_Str c, (case c of Num n \<Rightarrow> n | _ \<Rightarrow> 0), (case c of Str s \<Rightarrow> s | _ \<Rightarrow> []))"

definition mixed_types :: "cell list \<Rightarrow> bool" where
  "mixed_types cs = (list_ex is_Str cs \<and> list_ex is_Num cs)"

definition row_key :: "string list \<Rightarrow> row \<Rightarrow> (bool \<times> bool \<times> int \<times> string) list" where
  "row_key by r = map (\<lambda>c. cell_key (cells r c)) by"

definition sort_values :: "string list \<Rightarrow> frame \<Rightarrow> error + frame" where
  "sort_values by df =
     (case by of
        [c] \<Rightarrow>
          if mixed_types (map (\<lambda>r. cells r c) (rows df)) then Inl TypeError
          else Inr (df\<lparr>rows := sort_key (row_key by) (rows df)\<rparr>)
      | _ \<Rightarrow> Inr (df\<lparr>rows := sort_key (row_key by) (rows df)\<rparr>))"

definition build_report_dataframe :: "frame \<Rightarrow> frame \<Rightarrow> frame \<Rightarrow> error + frame" where
  "build_report_dataframe accounts_df usage_df askai_df =
     (if empty accounts_df then Inr \<lparr>columns = REPORT_COLUMNS, rows = []\<rparr>
      else
        let report = roster_base accounts_df;
            report = fold (merge_metric usage_df) METRICS_USAGE_TYPE_MAP report;
            report = merge_askai askai_df report
        in case fill_columns columns_to_fill report of
             Inl e \<Rightarrow> Inl e
           | Inr report \<Rightarrow>
               (case (if ''Username'' \<in> set (columns report)
                      then sort_values [''Username'', ''Account''] report
                      else sort_values [''Account''] report) of
                  Inl e \<Rightarrow> Inl e
                | Inr report \<Rightarrow> Inr (select_columns REPORT_COLUMNS report)))"

section \<open>Exporters and the command-line entry point\<close>

text \<open>
  A Python function defined with positional parameters only, none of them with a default:
  a call binds the arguments to the parameters one by one and raises \<open>TypeError\<close> before
  the body runs when their numbers differ.
\<close>

datatype pyval = VFrame frame | VStr string | VInstant instant

record pydef =
  params :: "string list"
  body :: "pyval list \<Rightarrow> error + string"

definition py_call :: "pydef \<Rightarrow> pyval list \<Rightarrow> error + string" where
  "py_call f args = (if length args = length (params f) then body f args else Inl TypeError)"

text \<open>
  What lies outside the program: the environment after \<open>load_dotenv\<close>, the outcome of
  scanning a table (\<open>get_data_from_dynamodb\<close> talks to the remote store; an invocation
  whose scan never ends does not get any further and is not described), the calendar
  rendering of an instant, and the two serializers' libraries.
\<close>

record world =
  getenv :: "string \<Rightarrow> string option"
  get_data_from_dynamodb :: "string \<Rightarrow> string \<Rightarrow> string \<Rightarrow> string \<Rightarrow> error + frame"
  strftime_Ymd :: "instant \<Rightarrow> string"
  to_excel :: "frame \<Rightarrow> string"
  to_docx :: "frame \<Rightarrow> instant \<Rightarrow> instant \<Rightarrow> string"

definition TABLE_ACCOUNTS :: string where
  "TABLE_ACCOUNTS = ''oak-account-vtc''"

definition TABLE_USAGE :: string where
  "TABLE_USAGE = ''oak-usage-log-vtc''"

definition TABLE_ASKAI :: string where
  "TABLE_ASKAI = ''oak-ask-ai-vtc''"

definition export_excel :: "world \<Rightarrow> pydef" where
  "export_excel W =
     \<lparr>params = [''df''],
      body = (\<lambda>args. case args of
                [VFrame df] \<Rightarrow> Inr (to_excel W df)
              | _ \<Rightarrow> Inl AttributeError)\<rparr>"

definition export_docx :: "world \<Rightarrow> pydef" where
  "export_docx W =
     \<lparr>params = [''df'', ''start_dt'', ''end_dt''],
      body = (\<lambda>args. case args of
                [VFrame df, VInstant start_dt, VInstant end_dt] \<Rightarrow> Inr (to_docx W df start_dt end_dt)
              | _ \<Rightarrow> Inl AttributeError)\<rparr>"

definition load_env_credentials :: "world \<Rightarrow> error + (string \<times> string \<times> string)" where
  "load_env_credentials W =
     (case (getenv W ''VTC_DYNAMODB_ACCESS_KEY_ID'',
            getenv W ''VTC_DYNAMODB_SECRET_ACCESS_KEY'',
            getenv W ''VTC_DYNAMODB_REGION'') of
        (Some (a # as), Some (s # ss), Some (r # rs)) \<Rightarrow> Inr (a # as, s # ss, r # rs)
      | _ \<Rightarrow> Inl RuntimeError)"

datatype output_format = Excel | Docx

record args =
  start_date :: "string option"
  end_date :: "string option"
  format :: output_format
  output_file :: "string option"
  debug :: bool
  no_date_filter :: bool

text \<open>
  Lines 314 to 351 of \<open>main\<close>: everything before the export step. The debug listing only
  prints and is left out.
\<close>

definition main_report ::
  "pandas \<Rightarrow> world \<Rightarrow> args \<Rightarrow> error + (frame \<times> string \<times> instant \<times> instant)" where
  "main_report L W a =
     (case resolve_date_range L (start_date a) (end_date a) of
        Inl e \<Rightarrow> Inl e
      | Inr (start_dt, end_dt) \<Rightarrow>
          (let default_name =
                 ''vtc_report_'' @ strftime_Ymd W start_dt @ ''_'' @ strftime_Ymd W end_dt
                   @ (if format a = Excel then ''.xlsx'' else ''.docx'');
               output_path = (case output_file a of Some (c # cs) \<Rightarrow> c # cs | _ \<Rightarrow> default_name)
           in case load_env_credentials W of
                Inl e \<Rightarrow> Inl e
              | Inr (access_key, secret_key, region) \<Rightarrow>
                  (case get_data_from_dynamodb W TABLE_ACCOUNTS access_key secret_key region of
                     Inl e \<Rightarrow> Inl e
                   | Inr accounts_df \<Rightarrow>
                  (case get_data_from_dynamodb W TABLE_USAGE access_key secret_key region of
                     Inl e \<Rightarrow> Inl e
                   | Inr usage_df_all \<Rightarrow>
                  (case get_data_from_dynamodb W TABLE_ASKAI access_key secret_key region of
                     Inl e \<Rightarrow> Inl e
                   | Inr askai_df_all \<Rightarrow>
                       (let usage_df = (if no_date_filter a then coerce_created_at L usage_df_all
                                        else filter_by_date L usage_df_all start_dt end_dt);
                            askai_df = (if no_date_filter a then coerce_created_at L askai_df_all
                                        else filter_by_date L askai_df_all start_dt end_dt)
                        in case build_report_dataframe accounts_df usage_df askai_df of
                             Inl e \<Rightarrow> Inl e
                           | Inr report_df \<Rightarrow> Inr (report_df, output_path, start_dt, end_dt)))))))"

text \<open>
  Lines 353 to 358: the export step and the message printed after it (without its
  leading check mark). The result of \<open>main\<close> is that message, or the error raised.
\<close>

definition main :: "pandas \<Rightarrow> world \<Rightarrow> args \<Rightarrow> error + string" where
  "main L W a =
     (case main_report L W a of
        Inl e \<Rightarrow> Inl e
      | Inr (report_df, output_path, start_dt, end_dt) \<Rightarrow>
          (if format a = Excel
           then (case py_call (export_excel W) [VFrame report_df, VStr output_path] of
                   Inl e \<Rightarrow> Inl e
                 | Inr data \<Rightarrow> Inr (''Excel report written to '' @ output_path))
           else (case py_call (export_docx W)
                        [VFrame report_df, VStr output_path, VInstant start_dt, VInstant end_dt] of
                   Inl e \<Rightarrow> Inl e
                 | Inr data \<Rightarrow> Inr (''DOCX report written to '' @ output_path))))"

section \<open>What the report is expected to hold\<close>

text \<open>
  The identity and the label of a roster row as the assembler reads them: through the first
  alias present in the roster, and \<open>None\<close> when there is none.
\<close>

definition roster_account :: "frame \<Rightarrow> row \<Rightarrow> string" where
  "roster_account df r =
     normalize_account (case find_first_column df ACCOUNT_ALIASES of
                          None \<Rightarrow> PyNone | Some c \<Rightarrow> cells r c)"

definition roster_username :: "frame \<Rightarrow> row \<Rightarrow> cell" where
  "roster_username df r =
     (case find_first_column df USERNAME_ALIASES of None \<Rightarrow> PyNone | Some c \<Rightarrow> cells r c)"

text \<open>The roster rows whose identity does not end with the internal domain suffix.\<close>

definition surviving :: "frame \<Rightarrow> row list" where
  "surviving df = filter (\<lambda>r. \<not> endswith (roster_account df r) ''@thinkcol.com'') (rows df)"

text \<open>
  The number of usage events that count for an identity under a list of accepted types, and
  the number of ask-AI events of an identity: events are matched on their normalized
  identity, and nothing matches when a field does not resolve.
\<close>

definition usage_count :: "frame \<Rightarrow> string list \<Rightarrow> string \<Rightarrow> nat" where
  "usage_count df usage_types a =
     (case find_first_column df ACCOUNT_ALIASES of
        None \<Rightarrow> 0
      | Some account_col \<Rightarrow>
          (case find_first_column df USAGE_TYPE_ALIASES of
             None \<Rightarrow> 0
           | Some usage_type_col \<Rightarrow>
               length (filter (\<lambda>e. (\<exists>t \<in> set usage_types. cells e usage_type_col = Str t)
                                   \<and> normalize_account (cells e account_col) = a) (rows df))))"

definition askai_count :: "frame \<Rightarrow> string \<Rightarrow> nat" where
  "askai_count df a =
     (case find_first_column df ACCOUNT_ALIASES of
        None \<Rightarrow> 0
      | Some account_col \<Rightarrow>
          length (filter (\<lambda>e. normalize_account (cells e account_col) = a) (rows df)))"

text \<open>
  What a report row shows: its identity, its label and its eight counts; what the row of
  a roster account is expected to show; and the sort key of either.
\<close>

definition report_view :: "row \<Rightarrow> cell \<times> cell \<times> cell list" where
  "report_view r = (cells r ''Account'', cells r ''Username'', map (cells r) columns_to_fill)"

definition expected_view :: "frame \<Rightarrow> frame \<Rightarrow> frame \<Rightarrow> row \<Rightarrow> cell \<times> cell \<times> cell list" where
  "expected_view accounts_df usage_df askai_df r =
     (Str (roster_account accounts_df r), roster_username accounts_df r,
      map (\<lambda>m. Num (int (usage_count usage_df (snd m) (roster_account accounts_df r))))
        METRICS_USAGE_TYPE_MAP
      @ [Num (int (askai_count askai_df (roster_account accounts_df r)))])"

definition view_key ::
  "cell \<times> cell \<times> cell list \<Rightarrow> (bool \<times> bool \<times> int \<times> string) list" where
  "view_key v = [cell_key (fst (snd v)), cell_key (fst v)]"

section \<open>Rows between the steps of the assembler\<close>

text \<open>One row after the identity column \<open>col\<close> has been normalized.\<close>

definition with_account :: "string \<Rightarrow> row \<Rightarrow> row" where
  "with_account col r = r\<lparr>cells := (cells r)(col := Str (normalize_account (cells r col)))\<rparr>"

text \<open>
  A table of counts: the two columns of the aggregator's result, one row per key, no key
  twice.
\<close>

definition count_table :: "frame \<Rightarrow> string list \<Rightarrow> (string \<Rightarrow> nat) \<Rightarrow> bool" where
  "count_table G keys cnt =
     (columns G = [''account'', ''count'']
      \<and> distinct keys
      \<and> map (\<lambda>g. (cells g ''account'', cells g ''count'')) (rows G)
          = map (\<lambda>k. (Str k, Num (int (cnt k)))) keys)"

text \<open>The cell a left join on the identity puts into a report row.\<close>

definition joined_cell :: "string list \<Rightarrow> (string \<Rightarrow> nat) \<Rightarrow> cell \<Rightarrow> cell" where
  "joined_cell keys cnt c =
     (case c of Str a \<Rightarrow> if a \<in> set keys then Num (int (cnt a)) else NaN | _ \<Rightarrow> NaN)"

text \<open>
  A report row after the count of its identity has been joined into column \<open>col\<close>: the
  count where the identity has events, \<open>NaN\<close> where it has none.
\<close>

definition count_cell :: "(string \<Rightarrow> nat) \<Rightarrow> cell \<Rightarrow> cell" where
  "count_cell cnt c =
     (case c of Str a \<Rightarrow> if 0 < cnt a then Num (int (cnt a)) else NaN | _ \<Rightarrow> NaN)"

definition with_count :: "string \<Rightarrow> (string \<Rightarrow> nat) \<Rightarrow> row \<Rightarrow> row" where
  "with_count col cnt l = l\<lparr>cells := (cells l)(col := count_cell cnt (cells l ''Account''))\<rparr>"

text \<open>A report row after all the joins of lines 227 to 232.\<close>

definition merged_row :: "frame \<Rightarrow> frame \<Rightarrow> row \<Rightarrow> row" where
  "merged_row usage_df askai_df l =
     with_count ''AskAI Questions'' (askai_count askai_df)
       (fold (\<lambda>m. with_count (fst m) (usage_count usage_df (snd m))) METRICS_USAGE_TYPE_MAP l)"

text \<open>A report row after the loop of lines 237 to 240 over the columns \<open>cols\<close>.\<close>

definition filled_row :: "string list \<Rightarrow> row \<Rightarrow> row" where
  "filled_row cols r = r\<lparr>cells := (\<lambda>c. if c \<in> set cols then fillna0 (cells r c) else cells r c)\<rparr>"

section \<open>Example inputs\<close>

text \<open>
  An instance of the library parameters for the examples below. It converts whole numbers
  only and scales an epoch count to nanoseconds. It reads two texts, a date and a date with
  a time of day. On a column it does what pandas 2 does with text: the first value that
  is not null settles the format of the whole column, and a text in the other format is
  then not read; when the first value has neither format, every value is read on its own.
\<close>

datatype example_format = DateOnly | DateAndTime

definition example_format_of :: "string \<Rightarrow> example_format option" where
  "example_format_of s =
     (if s = ''2024-01-31'' then Some DateOnly
      else if s = ''2024-02-01 10:00:00'' then Some DateAndTime
      else None)"

definition example_instant_of :: "string \<Rightarrow> instant option" where
  "example_instant_of s =
     (if s = ''2024-01-31'' then Some 1706659200000000000
      else if s = ''2024-02-01 10:00:00'' then Some 1706781600000000000
      else None)"

definition example_guess_format :: "cell list \<Rightarrow> example_format option" where
  "example_guess_format xs =
     (case find (\<lambda>c. \<not> isna c) xs of
        Some (Str s) \<Rightarrow> example_format_of s
      | _ \<Rightarrow> None)"

definition example_to_datetime_column :: "cell list \<Rightarrow> nat \<Rightarrow> instant option" where
  "example_to_datetime_column xs i =
     (if i < length xs
      then (case xs ! i of
              Str s \<Rightarrow>
                (case example_guess_format xs of
                   None \<Rightarrow> example_instant_of s
                 | Some f \<Rightarrow> if example_format_of s = Some f then example_instant_of s else None)
            | _ \<Rightarrow> None)
      else None)"

definition example_pandas :: pandas where
  "example_pandas =
     \<lparr>to_numeric = (\<lambda>c. case c of Num n \<Rightarrow> Some (of_int n) | _ \<Rightarrow> None),
      to_datetime_unit =
        (\<lambda>u n. Some \<lfloor>n * (case u of Seconds \<Rightarrow> 1000000000 | Millis \<Rightarrow> 1000000)\<rfloor>),
      to_datetime = (\<lambda>c. case c of Str s \<Rightarrow> example_instant_of s | _ \<Rightarrow> None),
      to_datetime_column = example_to_datetime_column,
      now = 1706700000000000000\<rparr>"

definition example_row :: "(string \<times> cell) list \<Rightarrow> row" where
  "example_row kvs =
     \<lparr>cells = (\<lambda>c. case map_of kvs c of None \<Rightarrow> NaN | Some v \<Rightarrow> v), createdAt_dt = None\<rparr>"

definition seconds_frame :: frame where
  "seconds_frame =
     \<lparr>columns = [''createdAt''],
      rows = [example_row [(''createdAt'', Num 1700000000)],
              example_row [(''createdAt'', Num 1700000100)],
              example_row [(''createdAt'', Str ''2024-01-31'')]]\<rparr>"

definition millis_frame :: frame where
  "millis_frame =
     \<lparr>columns = [''createdAt''],
      rows = [example_row [(''createdAt'', Num 1700000000000)]]\<rparr>"

definition text_frame :: frame where
  "text_frame =
     \<lparr>columns = [''created_at''],
      rows = [example_row [(''created_at'', Str ''2024-01-31'')],
              example_row [(''created_at'', Str ''yesterday'')],
              example_row []]\<rparr>"

text \<open>
  A column of two texts in two formats, and the second of them as a column of its own.
\<close>

definition two_formats_frame :: frame where
  "two_formats_frame =
     \<lparr>columns = [''created_at''],
      rows = [example_row [(''created_at'', Str ''2024-01-31'')],
              example_row [(''created_at'', Str ''2024-02-01 10:00:00'')]]\<rparr>"

definition time_of_day_frame :: frame where
  "time_of_day_frame =
     \<lparr>columns = [''created_at''],
      rows = [example_row [(''created_at'', Str ''2024-02-01 10:00:00'')]]\<rparr>"

text \<open>A row that carries an instant and nothing else, for frames already normalized.\<close>

definition instant_row :: "instant option \<Rightarrow> row" where
  "instant_row t = \<lparr>cells = (\<lambda>c. NaN), createdAt_dt = t\<rparr>"

definition boundary_frame :: frame where
  "boundary_frame =
     \<lparr>columns = [''createdAt_dt''],
      rows = [instant_row (Some 1706745599000000000),
              instant_row (Some 1706745599000001000),
              instant_row (Some 1706745600000000000),
              instant_row None]\<rparr>"

definition no_timestamp_frame :: frame where
  "no_timestamp_frame =
     \<lparr>columns = [''account'', ''usage_type''],
      rows = [example_row [(''account'', Str ''a@x.com''), (''usage_type'', Str ''transcript'')]]\<rparr>"

text \<open>
  A world with credentials in the environment and three empty tables, and the arguments
  of a plain run in each of the two formats.
\<close>

definition example_world :: world where
  "example_world =
     \<lparr>getenv = (\<lambda>name. Some ''secret''),
      get_data_from_dynamodb = (\<lambda>table access_key secret_key region. Inr \<lparr>columns = [], rows = []\<rparr>),
      strftime_Ymd = (\<lambda>t. ''20240131''),
      to_excel = (\<lambda>df. ''xlsx''),
      to_docx = (\<lambda>df start_dt end_dt. ''docx'')\<rparr>"

definition example_args :: "output_format \<Rightarrow> args" where
  "example_args f =
     \<lparr>start_date = None, end_date = Some ''2024-01-31'', format = f, output_file = None,
      debug = False, no_date_filter = False\<rparr>"

text \<open>
  Usage events of two customers, of a staff account and of an account that is not on the
  roster, with identities in mixed case and padded with blanks.
\<close>

definition example_usage :: frame where
  "example_usage =
     \<lparr>columns = [''email'', ''usageType'', ''createdAt''],
      rows = [example_row [(''email'', Str ''A@X.com''), (''usageType'', Str ''transcript''),
                           (''createdAt'', Num 1706000000)],
              example_row [(''email'', Str '' a@x.com ''), (''usageType'', Str ''transcript''),
                           (''createdAt'', Num 1706000100)],
              example_row [(''email'', Str ''b@x.com''), (''usageType'', Str ''initial summary''),
                           (''createdAt'', Num 1706000200)],
              example_row [(''email'', Str ''b@x.com''), (''usageType'', Str ''transcript''),
                           (''createdAt'', Num 1706000300)],
              example_row [(''email'', Str ''Admin@ThinkCol.com''), (''usageType'', Str ''transcript''),
                           (''createdAt'', Num 1706000400)],
              example_row [(''email'', Str ''ghost@x.com''), (''usageType'', Str ''transcript''),
                           (''createdAt'', Num 1706000500)]]\<rparr>"

text \<open>
  A roster of three customers, one of them without a label, and of one staff account; and
  the ask-AI events of one customer and of an account that is not on the roster.
\<close>

definition example_roster :: frame where
  "example_roster =
     \<lparr>columns = [''email'', ''name''],
      rows = [example_row [(''email'', Str ''z@x.com''), (''name'', Str ''Zed'')],
              example_row [(''email'', Str '' B@x.com'')],
              example_row [(''email'', Str ''Admin@ThinkCol.com''), (''name'', Str ''Root'')],
              example_row [(''email'', Str ''a@x.com''), (''name'', Str ''Alice'')]]\<rparr>"

definition example_askai :: frame where
  "example_askai =
     \<lparr>columns = [''user'', ''createdAt''],
      rows = [example_row [(''user'', Str ''a@x.com''), (''createdAt'', Num 1706000000)],
              example_row [(''user'', Str ''A@X.COM''), (''createdAt'', Num 1706000100)],
              example_row [(''user'', Str ''ghost@x.com''), (''createdAt'', Num 1706000200)]]\<rparr>"

text \<open>A roster whose labels are two strings, a number and a missing value.\<close>

definition mixed_roster :: frame where
  "mixed_roster =
     \<lparr>columns = [''email'', ''name''],
      rows = [example_row [(''email'', Str ''z@x.com''), (''name'', Str ''Zed'')],
              example_row [(''email'', Str ''b@x.com'')],
              example_row [(''email'', Str ''n@x.com''), (''name'', Num 7)],
              example_row [(''email'', Str ''a@x.com''), (''name'', Str ''Alice'')]]\<rparr>"

text \<open>A roster without any label field.\<close>

definition unnamed_roster :: frame where
  "unnamed_roster =
     \<lparr>columns = [''email''],
      rows = [example_row [(''email'', Str ''z@x.com'')],
              example_row [(''email'', Str ''Admin@ThinkCol.com'')],
              example_row [(''email'', Str ''A@x.com'')]]\<rparr>"

section \<open>Properties of the schema resolver and the timestamp normalizer\<close>

lemma find_first_column_mem:
  "find_first_column df cs = Some c \<Longrightarrow> c \<in> set cs \<and> c \<in> set (columns df)"
  by (induction cs) (auto split: if_splits)

lemma find_first_column_None:
  "find_first_column df cs = None \<longleftrightarrow> set cs \<inter> set (columns df) = {}"
  by (induction cs) auto

lemma series_max_these:
  "series_max xs =
     (if Option.these (set xs) = {} then None else Some (Max (Option.these (set xs))))"
proof (induction xs rule: series_max.induct)
  case 1
  then show ?case by simp
next
  case (2 xs)
  then show ?case by (simp add: Option.these_insert_None)
next
  case (3 x xs)
  have fin: "finite (Option.these (set xs))" by (simp add: Option.these_def)
  show ?case using 3 fin by (auto simp: Option.these_insert_Some)
qed

lemma rows_assign_createdAt_dt:
  assumes "length coerced = length (rows df)"
  shows "map createdAt_dt (rows (assign_createdAt_dt coerced df)) = coerced"
proof -
  have "map createdAt_dt (rows (assign_createdAt_dt coerced df)) = map snd (zip (rows df) coerced)"
    by (simp add: assign_createdAt_dt_def comp_def case_prod_beta)
  then show ?thesis using assms by (simp add: map_snd_zip)
qed

lemma majority_nonempty:
  assumes "numeric_majority xs"
  shows "Option.these (set xs) \<noteq> {}"
proof
  assume "Option.these (set xs) = {}"
  then have "\<forall>x \<in> set xs. x = None"
    by (auto simp: Option.these_def image_iff)
  then have "filter (\<lambda>x. x \<noteq> None) xs = []"
    by (simp add: filter_empty_conv)
  with assms show False
    by (simp add: numeric_majority_def notna_count_def)
qed

text \<open>
  C1. On a frame with rows and a timestamp column \<open>c\<close>, write \<open>raw\<close> for that column and
  \<open>numeric\<close> for it after \<open>to_numeric\<close>. If strictly more than half of the values are
  numbers, every row's instant is the epoch reading of its number, in milliseconds when the
  greatest number exceeds \<open>10^12\<close> and in seconds otherwise, and a value that is not a
  number gives the null instant with no second attempt. Otherwise the raw column goes
  through the date/time conversion in one call, and every row's instant is what that
  conversion of the whole column holds at the row's position (null where the conversion
  reads nothing); it need not be what the value would give on its own.
\<close>

theorem coerce_created_at_majority_rule:
  fixes L :: pandas and df :: frame and c :: string
  defines "raw \<equiv> map (\<lambda>r. cells r c) (rows df)"
  defines "numeric \<equiv> map (to_numeric L) raw"
  assumes "\<not> empty df" and "find_first_column df CREATED_AT_ALIASES = Some c"
  shows "map createdAt_dt (rows (coerce_created_at L df)) =
          (if length numeric < 2 * length (filter (\<lambda>x. x \<noteq> None) numeric)
           then map (\<lambda>x. case x of
                      None \<Rightarrow> None
                    | Some n \<Rightarrow> to_datetime_unit L
                         (if 10 ^ 12 < Max (Option.these (set numeric)) then Millis else Seconds) n)
                  numeric
           else map (to_datetime_column L raw) [0 ..< length raw])"
proof (cases "numeric_majority numeric")
  case True
  then have ne: "Option.these (set numeric) \<noteq> {}" by (rule majority_nonempty)
  have ex: "exceeds_1e12 numeric = (10 ^ 12 < Max (Option.these (set numeric)))"
    using ne by (simp add: exceeds_1e12_def series_max_these)
  have maj: "length numeric < 2 * length (filter (\<lambda>x. x \<noteq> None) numeric)"
    using True by (simp add: numeric_majority_def notna_count_def)
  have len: "length numeric = length (rows df)"
    by (simp add: numeric_def raw_def)
  have "coerce_created_at L df =
          assign_createdAt_dt (map (from_epoch L
             (if 10 ^ 12 < Max (Option.these (set numeric)) then Millis else Seconds)) numeric) df"
    using True assms(3,4) ex unfolding coerce_created_at_def numeric_def raw_def
    by (simp add: Let_def)
  then have "map createdAt_dt (rows (coerce_created_at L df)) =
          map (from_epoch L
             (if 10 ^ 12 < Max (Option.these (set numeric)) then Millis else Seconds)) numeric"
    using len by (simp add: rows_assign_createdAt_dt)
  moreover have "from_epoch L u = (\<lambda>x. case x of None \<Rightarrow> None | Some n \<Rightarrow> to_datetime_unit L u n)"
    for u
    by (simp add: from_epoch_def fun_eq_iff)
  ultimately show ?thesis using maj by simp
next
  case False
  then have maj: "\<not> length numeric < 2 * length (filter (\<lambda>x. x \<noteq> None) numeric)"
    by (simp add: numeric_majority_def notna_count_def)
  have "coerce_created_at L df =
          assign_createdAt_dt (map (to_datetime_column L raw) [0 ..< length raw]) df"
    using False assms(3,4) unfolding coerce_created_at_def numeric_def raw_def
    by (simp add: Let_def)
  moreover have "length (map (to_datetime_column L raw) [0 ..< length raw]) = length (rows df)"
    by (simp add: raw_def)
  ultimately show ?thesis
    using maj by (simp add: rows_assign_createdAt_dt)
qed

text \<open>
  Two numbers out of three values are read as seconds and the text among them is null;
  one number above \<open>10^12\<close> is read as milliseconds; a column without numbers goes through
  the date/time conversion, which reads the date and leaves the word and the missing
  value null.
\<close>

theorem coerce_created_at_majority_rule_witness:
  "map createdAt_dt (rows (coerce_created_at example_pandas seconds_frame)) =
     [Some 1700000000000000000, Some 1700000100000000000, None]
   \<and> map createdAt_dt (rows (coerce_created_at example_pandas millis_frame)) =
     [Some 1700000000000000000]
   \<and> map createdAt_dt (rows (coerce_created_at example_pandas text_frame)) =
     [Some 1706659200000000000, None, None]"
  using coerce_created_at_majority_rule [of seconds_frame "''createdAt''" example_pandas]
    coerce_created_at_majority_rule [of millis_frame "''createdAt''" example_pandas]
    coerce_created_at_majority_rule [of text_frame "''created_at''" example_pandas]
  by (simp add: seconds_frame_def millis_frame_def text_frame_def example_row_def
      example_pandas_def example_to_datetime_column_def example_guess_format_def
      example_format_of_def example_instant_of_def isna_def
      empty_def CREATED_AT_ALIASES_def upt_rec nth_Cons'
      Option.these_insert_Some Option.these_insert_None)

text \<open>
  The text \<open>2024-02-01 10:00:00\<close> is read as an instant when it is the only value of the
  column, and is null when it stands below \<open>2024-01-31\<close>, whose format the conversion
  takes for the whole column: the two values are not read independently of each other.
\<close>

theorem coerce_created_at_not_value_by_value:
  "map createdAt_dt (rows (coerce_created_at example_pandas time_of_day_frame)) =
     [Some 1706781600000000000]
   \<and> map createdAt_dt (rows (coerce_created_at example_pandas two_formats_frame)) =
     [Some 1706659200000000000, None]"
  by (simp add: coerce_created_at_def assign_createdAt_dt_def numeric_majority_def
      notna_count_def two_formats_frame_def time_of_day_frame_def example_row_def
      example_pandas_def example_to_datetime_column_def example_guess_format_def
      example_format_of_def example_instant_of_def isna_def
      empty_def CREATED_AT_ALIASES_def upt_rec nth_Cons' Let_def)

section \<open>Properties of the date-range filter\<close>

lemma coerce_created_at_no_alias:
  "find_first_column df CREATED_AT_ALIASES = None \<Longrightarrow> coerce_created_at L df = df"
  by (simp add: coerce_created_at_def)

lemma coerce_created_at_empty:
  "empty df \<Longrightarrow> coerce_created_at L df = df"
  by (simp add: coerce_created_at_def)

lemma filter_by_date_rows:
  assumes "columns df = [] \<longrightarrow> rows df = []"
  shows "rows (filter_by_date L df start_dt end_dt) =
     filter (\<lambda>r. ''createdAt_dt'' \<in> set (columns (if ''createdAt_dt'' \<in> set (columns df) then df else coerce_created_at L df))
                 \<and> (\<exists>t. createdAt_dt r = Some t \<and> start_dt \<le> t \<and> t \<le> end_dt))
       (rows (if ''createdAt_dt'' \<in> set (columns df) then df else coerce_created_at L df))"
proof (cases "empty df")
  case True
  with assms have "rows df = []" by (auto simp: empty_def)
  then show ?thesis using True by (simp add: filter_by_date_def coerce_created_at_empty)
next
  case False
  define df1 where "df1 = (if ''createdAt_dt'' \<in> set (columns df) then df else coerce_created_at L df)"
  have in_range_eq: "in_range start_dt end_dt = (\<lambda>r. \<exists>t. createdAt_dt r = Some t \<and> start_dt \<le> t \<and> t \<le> end_dt)"
    by (auto simp: in_range_def fun_eq_iff split: option.splits)
  show ?thesis
  proof (cases "''createdAt_dt'' \<notin> set (columns df1) \<or> all_na df1")
    case True
    then have "filter (\<lambda>r. ''createdAt_dt'' \<in> set (columns df1)
                 \<and> (\<exists>t. createdAt_dt r = Some t \<and> start_dt \<le> t \<and> t \<le> end_dt)) (rows df1) = []"
      by (auto simp: all_na_def filter_empty_conv list_all_iff)
    moreover have "rows (filter_by_date L df start_dt end_dt) = []"
      using True False unfolding filter_by_date_def df1_def by (auto simp: Let_def)
    ultimately show ?thesis unfolding df1_def by simp
  next
    case False2: False
    then have "rows (filter_by_date L df start_dt end_dt) = filter (in_range start_dt end_dt) (rows df1)"
      using False unfolding filter_by_date_def df1_def by (auto simp: Let_def)
    then show ?thesis using False2 unfolding df1_def in_range_eq by auto
  qed
qed

lemma normalize_midnight:
  assumes "in_bounds (normalize t + day_ns)"
  shows "normalize t mod day_ns = 0"
proof (cases "in_bounds t \<and> t - t mod day_ns < - (2 ^ 63)")
  case True
  have "t mod day_ns < day_ns" by (simp add: day_ns_def)
  with True have "- (2 ^ 63) - day_ns < t - t mod day_ns"
    by (simp add: in_bounds_def)
  moreover have "normalize t = t - t mod day_ns + 2 ^ 64"
    using True by (simp add: normalize_def Let_def)
  ultimately have "\<not> in_bounds (normalize t + day_ns)"
    by (simp add: in_bounds_def)
  with assms show ?thesis by simp
next
  case False
  then have "normalize t = t - t mod day_ns"
    by (auto simp: normalize_def Let_def)
  then show ?thesis by (simp add: day_ns_def)
qed

lemma end_of_day_in_bounds:
  "end_of_day t = Inr e \<Longrightarrow> in_bounds (t + day_ns)"
  by (auto simp: end_of_day_def ts_add_def split: sum.splits if_splits)

lemma end_of_day_Inr:
  "end_of_day t = Inr e \<Longrightarrow> e = t + day_ns - second_ns"
  by (auto simp: end_of_day_def ts_add_def split: sum.splits if_splits)

lemma resolve_date_range_end:
  assumes "resolve_date_range L start_str end_str = Inr (start_dt, end_dt)"
  shows "\<exists>midnight. end_dt = midnight + day_ns - second_ns
           \<and> (case end_str of Some (c # cs) \<Rightarrow> to_datetime L (Str (c # cs)) = Some midnight
               | _ \<Rightarrow> midnight = normalize (now L) \<and> midnight mod day_ns = 0)"
  using assms
  by (auto simp: resolve_date_range_def to_datetime_raise_def
      split: option.splits list.splits sum.splits
      dest: end_of_day_Inr normalize_midnight [OF end_of_day_in_bounds])

lemma end_of_day_235959:
  "midnight mod day_ns = 0 \<Longrightarrow> (midnight + day_ns - second_ns) mod day_ns = 86399 * second_ns"
proof -
  assume "midnight mod day_ns = 0"
  then obtain k where "midnight = k * day_ns" by (metis mod_eq_0_iff_dvd dvd_def mult.commute)
  then show ?thesis by (simp add: day_ns_def second_ns_def)
qed

text \<open>
  C4. Take a frame in which rows come with at least one column, as every frame built from a
  scan is, and let \<open>df1\<close> be the frame with its instant column (the frame itself when
  it has one, its normalization otherwise). The filter keeps exactly the rows of \<open>df1\<close>
  whose instant \<open>t\<close> exists and satisfies \<open>start_dt \<le> t \<le> end_dt\<close>. When the
  interval comes from \<open>resolve_date_range\<close>, its end is one second before the midnight
  that follows the end date (23:59:59 of that day when the end date reads as a midnight, and
  always so for the default end date); a row stamped exactly at the end is kept as soon as
  the interval is not empty, a row one second or one microsecond later is dropped, and so
  is a row with the null instant.
\<close>

theorem filter_by_date_inclusive:
  fixes L :: pandas and df :: frame and start_dt end_dt :: instant
  defines "df1 \<equiv> (if ''createdAt_dt'' \<in> set (columns df) then df else coerce_created_at L df)"
  defines "kept \<equiv> rows (filter_by_date L df start_dt end_dt)"
  assumes wf: "columns df = [] \<longrightarrow> rows df = []"
  shows "kept = filter (\<lambda>r. ''createdAt_dt'' \<in> set (columns df1)
                          \<and> (\<exists>t. createdAt_dt r = Some t \<and> start_dt \<le> t \<and> t \<le> end_dt)) (rows df1)
       \<and> (resolve_date_range L start_str end_str = Inr (start_dt, end_dt) \<longrightarrow>
            (\<exists>midnight. end_dt = midnight + day_ns - second_ns
               \<and> (case end_str of
                     Some (c # cs) \<Rightarrow> to_datetime L (Str (c # cs)) = Some midnight
                   | _ \<Rightarrow> midnight = normalize (now L) \<and> end_dt mod day_ns = 86399 * second_ns)
               \<and> (midnight mod day_ns = 0 \<longrightarrow> end_dt mod day_ns = 86399 * second_ns))
          \<and> (\<forall>r \<in> set (rows df1). ''createdAt_dt'' \<in> set (columns df1) \<longrightarrow>
                (createdAt_dt r = Some end_dt \<and> start_dt \<le> end_dt \<longrightarrow> r \<in> set kept)
              \<and> (createdAt_dt r = Some (end_dt + second_ns) \<longrightarrow> r \<notin> set kept)
              \<and> (createdAt_dt r = Some (end_dt + microsecond_ns) \<longrightarrow> r \<notin> set kept)
              \<and> (createdAt_dt r = None \<longrightarrow> r \<notin> set kept)))"
proof -
  have kept: "kept = filter (\<lambda>r. ''createdAt_dt'' \<in> set (columns df1)
                          \<and> (\<exists>t. createdAt_dt r = Some t \<and> start_dt \<le> t \<and> t \<le> end_dt)) (rows df1)"
    unfolding kept_def df1_def using wf by (rule filter_by_date_rows)
  have bnd: "\<forall>r \<in> set (rows df1). ''createdAt_dt'' \<in> set (columns df1) \<longrightarrow>
                (createdAt_dt r = Some end_dt \<and> start_dt \<le> end_dt \<longrightarrow> r \<in> set kept)
              \<and> (createdAt_dt r = Some (end_dt + second_ns) \<longrightarrow> r \<notin> set kept)
              \<and> (createdAt_dt r = Some (end_dt + microsecond_ns) \<longrightarrow> r \<notin> set kept)
              \<and> (createdAt_dt r = None \<longrightarrow> r \<notin> set kept)"
    unfolding kept by (auto simp: second_ns_def microsecond_ns_def)
  have rng: "\<exists>midnight. end_dt = midnight + day_ns - second_ns
               \<and> (case end_str of
                     Some (c # cs) \<Rightarrow> to_datetime L (Str (c # cs)) = Some midnight
                   | _ \<Rightarrow> midnight = normalize (now L) \<and> end_dt mod day_ns = 86399 * second_ns)
               \<and> (midnight mod day_ns = 0 \<longrightarrow> end_dt mod day_ns = 86399 * second_ns)"
    if r: "resolve_date_range L start_str end_str = Inr (start_dt, end_dt)"
  proof -
    from resolve_date_range_end [OF r] obtain midnight where
      m: "end_dt = midnight + day_ns - second_ns"
         "case end_str of Some (c # cs) \<Rightarrow> to_datetime L (Str (c # cs)) = Some midnight
               | _ \<Rightarrow> midnight = normalize (now L) \<and> midnight mod day_ns = 0"
      by blast
    have e: "midnight mod day_ns = 0 \<longrightarrow> end_dt mod day_ns = 86399 * second_ns"
      using m(1) end_of_day_235959 by simp
    have "case end_str of
                     Some (c # cs) \<Rightarrow> to_datetime L (Str (c # cs)) = Some midnight
                   | _ \<Rightarrow> midnight = normalize (now L) \<and> end_dt mod day_ns = 86399 * second_ns"
      using m(2) e by (auto split: option.splits list.splits)
    with m(1) e show ?thesis by blast
  qed
  show ?thesis using kept bnd rng by blast
qed

text \<open>
  The range ending on 2024-01-31 with the default start, and a frame stamped at the end of
  that day, one microsecond later, one second later, and not at all: only the first row
  is kept.
\<close>

theorem filter_by_date_inclusive_witness:
  "resolve_date_range example_pandas None (Some ''2024-01-31'')
     = Inr (1704153600000000000, 1706745599000000000)
   \<and> rows (filter_by_date example_pandas boundary_frame 1704153600000000000 1706745599000000000)
     = [instant_row (Some 1706745599000000000)]
   \<and> instant_row (Some 1706745599000000000)
       \<in> set (rows (filter_by_date example_pandas boundary_frame 1704153600000000000 1706745599000000000))
   \<and> instant_row (Some 1706745600000000000)
       \<notin> set (rows (filter_by_date example_pandas boundary_frame 1704153600000000000 1706745599000000000))
   \<and> instant_row (Some 1706745599000001000)
       \<notin> set (rows (filter_by_date example_pandas boundary_frame 1704153600000000000 1706745599000000000))
   \<and> instant_row None
       \<notin> set (rows (filter_by_date example_pandas boundary_frame 1704153600000000000 1706745599000000000))"
proof -
  have r: "resolve_date_range example_pandas None (Some ''2024-01-31'')
     = Inr (1704153600000000000, 1706745599000000000)"
    by (simp add: resolve_date_range_def example_pandas_def example_instant_of_def
        to_datetime_raise_def end_of_day_def ts_add_def in_bounds_def day_ns_def second_ns_def
        normalize_def Let_def)
  have wf: "columns boundary_frame = [] \<longrightarrow> rows boundary_frame = []"
    by (simp add: boundary_frame_def)
  show ?thesis
    using r filter_by_date_inclusive [OF wf, of example_pandas 1704153600000000000
        1706745599000000000 None "Some ''2024-01-31''"]
    by (simp add: boundary_frame_def instant_row_def second_ns_def microsecond_ns_def)
qed

text \<open>
  C7. When no timestamp field name resolves and the frame has no instant column yet, the
  filter returns an empty frame with the columns of its input: no rows whenever the input has
  a column at all. The function has no failing branch on such a frame.
\<close>

theorem filter_by_date_no_timestamp_column:
  assumes "find_first_column df CREATED_AT_ALIASES = None"
    and "''createdAt_dt'' \<notin> set (columns df)"
  shows "empty (filter_by_date L df start_dt end_dt)
       \<and> columns (filter_by_date L df start_dt end_dt) = columns df
       \<and> (columns df \<noteq> [] \<longrightarrow> rows (filter_by_date L df start_dt end_dt) = [])"
  using assms
  by (auto simp: filter_by_date_def coerce_created_at_no_alias empty_def Let_def)

theorem filter_by_date_no_timestamp_column_witness:
  "empty (filter_by_date example_pandas no_timestamp_frame 0 1)
   \<and> columns (filter_by_date example_pandas no_timestamp_frame 0 1) = [''account'', ''usage_type'']
   \<and> rows (filter_by_date example_pandas no_timestamp_frame 0 1) = []"
  using filter_by_date_no_timestamp_column [of no_timestamp_frame example_pandas 0 1]
  by (simp add: no_timestamp_frame_def CREATED_AT_ALIASES_def)

section \<open>Properties of the command-line entry point\<close>

lemma export_excel_two_arguments:
  "py_call (export_excel W) [VFrame report_df, VStr output_path] = Inl TypeError"
  by (simp add: py_call_def export_excel_def)

lemma export_docx_four_arguments:
  "py_call (export_docx W) [VFrame report_df, VStr output_path, VInstant start_dt, VInstant end_dt]
     = Inl TypeError"
  by (simp add: py_call_def export_docx_def)

text \<open>
  C6. \<open>export_excel\<close> has one parameter and \<open>main\<close> calls it with two arguments;
  \<open>export_docx\<close> has three and \<open>main\<close> calls it with four. Both calls raise
  \<open>TypeError\<close>, so every run of \<open>main\<close> that gets as far as the export step ends in
  \<open>TypeError\<close>, and no run of \<open>main\<close> ends with its success message.
\<close>

theorem main_export_raises_TypeError:
  "length (params (export_excel W)) = 1
   \<and> length (params (export_docx W)) = 3
   \<and> py_call (export_excel W) [VFrame report_df, VStr output_path] = Inl TypeError
   \<and> py_call (export_docx W)
        [VFrame report_df, VStr output_path, VInstant start_dt, VInstant end_dt] = Inl TypeError
   \<and> (\<forall>x. main_report L W a = Inr x \<longrightarrow> main L W a = Inl TypeError)
   \<and> (\<forall>msg. main L W a \<noteq> Inr msg)"
proof -
  have reach: "main L W a = Inl TypeError" if "main_report L W a = Inr x" for x
    using that
    by (cases x) (simp add: main_def export_excel_two_arguments export_docx_four_arguments)
  have never: "main L W a \<noteq> Inr msg" for msg
  proof (cases "main_report L W a")
    case (Inl e)
    then show ?thesis by (simp add: main_def)
  next
    case (Inr x)
    then show ?thesis using reach by simp
  qed
  show ?thesis
    using reach never export_excel_two_arguments export_docx_four_arguments
    by (simp add: export_excel_def export_docx_def)
qed

text \<open>Both formats reach the export step on empty tables, and both end in \<open>TypeError\<close>.\<close>

theorem main_export_raises_TypeError_witness:
  "main_report example_pandas example_world (example_args Excel)
     = Inr (\<lparr>columns = REPORT_COLUMNS, rows = []\<rparr>, ''vtc_report_20240131_20240131.xlsx'',
            1704153600000000000, 1706745599000000000)
   \<and> main example_pandas example_world (example_args Excel) = Inl TypeError
   \<and> main_report example_pandas example_world (example_args Docx)
     = Inr (\<lparr>columns = REPORT_COLUMNS, rows = []\<rparr>, ''vtc_report_20240131_20240131.docx'',
            1704153600000000000, 1706745599000000000)
   \<and> main example_pandas example_world (example_args Docx) = Inl TypeError"
proof -
  have r: "resolve_date_range example_pandas None (Some ''2024-01-31'')
     = Inr (1704153600000000000, 1706745599000000000)"
    by (simp add: resolve_date_range_def example_pandas_def example_instant_of_def
        to_datetime_raise_def end_of_day_def ts_add_def in_bounds_def day_ns_def second_ns_def
        normalize_def Let_def)
  have m: "main_report example_pandas example_world (example_args f)
     = Inr (\<lparr>columns = REPORT_COLUMNS, rows = []\<rparr>,
            ''vtc_report_20240131_20240131'' @ (if f = Excel then ''.xlsx'' else ''.docx''),
            1704153600000000000, 1706745599000000000)" for f
    by (simp add: main_report_def example_args_def r example_world_def load_env_credentials_def
        filter_by_date_def empty_def build_report_dataframe_def)
  show ?thesis
    using m [of Excel] m [of Docx]
      main_export_raises_TypeError [of example_world _ _ _ _ example_pandas "example_args Excel"]
      main_export_raises_TypeError [of example_world _ _ _ _ example_pandas "example_args Docx"]
    by simp
qed

section \<open>Properties of the per-account aggregator\<close>

lemma account_alias_not_usage_type:
  "c \<in> set ACCOUNT_ALIASES \<Longrightarrow> c \<notin> set USAGE_TYPE_ALIASES"
  by (auto simp: ACCOUNT_ALIASES_def USAGE_TYPE_ALIASES_def)

lemma account_alias_not_count:
  "c \<in> set ACCOUNT_ALIASES \<Longrightarrow> c \<noteq> ''count''"
  by (auto simp: ACCOUNT_ALIASES_def)

lemma isin_iff: "isin c vs \<longleftrightarrow> (\<exists>t \<in> set vs. c = Str t)"
  by (cases c) (auto simp: isin_def)

lemma rows_map_column_account:
  "rows (map_column col (\<lambda>c. Str (normalize_account c)) df) = map (with_account col) (rows df)"
  by (simp add: map_column_def with_account_def)

lemma group_keys_with_account:
  "group_keys col (map (with_account col) es) =
     sort (remdups (map (\<lambda>e. normalize_account (cells e col)) es))"
proof -
  have "concat (map (\<lambda>r. case cells r col of Str s \<Rightarrow> [s] | _ \<Rightarrow> []) (map (with_account col) es))
          = map (\<lambda>e. normalize_account (cells e col)) es"
    by (induction es) (simp_all add: with_account_def)
  then show ?thesis by (simp add: group_keys_def)
qed

lemma group_size_with_account:
  "group_size col (map (with_account col) es) k =
     length (filter (\<lambda>e. normalize_account (cells e col) = k) es)"
  by (induction es) (simp_all add: group_size_def with_account_def)

lemma grouped_pairs:
  assumes "col \<noteq> ''count''"
  shows "map (\<lambda>g. (cells g ''account'', cells g ''count''))
           (rows (rename_column col ''account'' (groupby_size col rs)))
         = map (\<lambda>k. (Str k, Num (int (group_size col rs k)))) (group_keys col rs)"
  using assms by (simp add: rename_column_def groupby_size_def comp_def)

lemma grouped_columns:
  assumes "col \<noteq> ''count''"
  shows "columns (rename_column col ''account'' (groupby_size col rs)) = [''account'', ''count'']"
  using assms by (simp add: rename_column_def groupby_size_def)

lemma count_usage_by_account_resolved:
  assumes "\<not> empty df" "usage_types \<noteq> []"
    and "find_first_column df ACCOUNT_ALIASES = Some account_col"
    and "find_first_column df USAGE_TYPE_ALIASES = Some usage_type_col"
  shows "count_usage_by_account df usage_types =
           rename_column account_col ''account''
             (groupby_size account_col
                (map (with_account account_col)
                   (filter (\<lambda>e. \<exists>t \<in> set usage_types. cells e usage_type_col = Str t) (rows df))))"
proof -
  have ne: "usage_type_col \<noteq> account_col"
    using assms(3,4) find_first_column_mem account_alias_not_usage_type by blast
  have "filter (\<lambda>r. isin (cells r usage_type_col) usage_types) (map (with_account account_col) (rows df))
          = map (with_account account_col)
              (filter (\<lambda>e. \<exists>t \<in> set usage_types. cells e usage_type_col = Str t) (rows df))"
    using ne by (simp add: filter_map comp_def with_account_def isin_iff)
  then show ?thesis
    using assms by (simp add: count_usage_by_account_def rows_map_column_account)
qed

text \<open>
  C8. \<open>count_usage_by_account\<close> is a total function. It returns the empty table of
  counts when the list of accepted types is empty or when the account field or the usage-type
  field does not resolve. Otherwise its table has one row per normalized (trimmed,
  lower-cased) identity that occurs among the events of an accepted type, identities in
  ascending order, each with the number of those events.
\<close>

theorem count_usage_by_account_counts:
  "(usage_types = [] \<or> find_first_column df ACCOUNT_ALIASES = None
      \<or> find_first_column df USAGE_TYPE_ALIASES = None
     \<longrightarrow> count_usage_by_account df usage_types = \<lparr>columns = [''account'', ''count''], rows = []\<rparr>)
   \<and> (\<forall>account_col usage_type_col.
         find_first_column df ACCOUNT_ALIASES = Some account_col
         \<and> find_first_column df USAGE_TYPE_ALIASES = Some usage_type_col
         \<and> usage_types \<noteq> [] \<longrightarrow>
           columns (count_usage_by_account df usage_types) = [''account'', ''count'']
           \<and> map (\<lambda>g. (cells g ''account'', cells g ''count''))
                 (rows (count_usage_by_account df usage_types))
             = map (\<lambda>k. (Str k,
                     Num (int (length (filter
                       (\<lambda>e. (\<exists>t \<in> set usage_types. cells e usage_type_col = Str t)
                             \<and> normalize_account (cells e account_col) = k) (rows df))))))
                 (sort (remdups (map (\<lambda>e. normalize_account (cells e account_col))
                    (filter (\<lambda>e. \<exists>t \<in> set usage_types. cells e usage_type_col = Str t)
                       (rows df))))))"
proof -
  have unresolved: "count_usage_by_account df usage_types = \<lparr>columns = [''account'', ''count''], rows = []\<rparr>"
    if "usage_types = [] \<or> find_first_column df ACCOUNT_ALIASES = None
      \<or> find_first_column df USAGE_TYPE_ALIASES = None"
    using that by (auto simp: count_usage_by_account_def empty_counts_def split: option.splits)
  have resolved: "columns (count_usage_by_account df usage_types) = [''account'', ''count'']
           \<and> map (\<lambda>g. (cells g ''account'', cells g ''count''))
                 (rows (count_usage_by_account df usage_types))
             = map (\<lambda>k. (Str k,
                     Num (int (length (filter
                       (\<lambda>e. (\<exists>t \<in> set usage_types. cells e usage_type_col = Str t)
                             \<and> normalize_account (cells e account_col) = k) (rows df))))))
                 (sort (remdups (map (\<lambda>e. normalize_account (cells e account_col))
                    (filter (\<lambda>e. \<exists>t \<in> set usage_types. cells e usage_type_col = Str t)
                       (rows df)))))"
    if a: "find_first_column df ACCOUNT_ALIASES = Some account_col"
      and u: "find_first_column df USAGE_TYPE_ALIASES = Some usage_type_col"
      and t: "usage_types \<noteq> []"
    for account_col usage_type_col
  proof (cases "empty df")
    case True
    have "columns df \<noteq> []" using a find_first_column_mem by fastforce
    with True have "rows df = []" by (simp add: empty_def)
    then show ?thesis using True by (simp add: count_usage_by_account_def empty_counts_def)
  next
    case False
    have c: "account_col \<noteq> ''count''"
      using a find_first_column_mem account_alias_not_count by blast
    show ?thesis
      unfolding count_usage_by_account_resolved [OF False t a u]
      using c
      by (simp add: grouped_columns grouped_pairs group_keys_with_account group_size_with_account)
  qed
  show ?thesis using unresolved resolved by blast
qed

lemmas string_eval =
  normalize_account_def py_strip_def py_lower_def is_space_def lower_char_def endswith_def
  char_of_def bit_Suc_0_iff

text \<open>
  Counting transcripts in the example events; an empty list of types; a frame without an
  account field.
\<close>

theorem count_usage_by_account_counts_witness:
  "map (\<lambda>g. (cells g ''account'', cells g ''count''))
     (rows (count_usage_by_account example_usage [''transcript'']))
     = [(Str ''a@x.com'', Num 2), (Str ''admin@thinkcol.com'', Num 1), (Str ''b@x.com'', Num 1),
        (Str ''ghost@x.com'', Num 1)]
   \<and> count_usage_by_account example_usage [] = \<lparr>columns = [''account'', ''count''], rows = []\<rparr>
   \<and> count_usage_by_account seconds_frame [''transcript'']
       = \<lparr>columns = [''account'', ''count''], rows = []\<rparr>"
  using count_usage_by_account_counts [of "[''transcript'']" example_usage]
    count_usage_by_account_counts [of "[]" example_usage]
    count_usage_by_account_counts [of "[''transcript'']" seconds_frame]
  by (simp add: example_usage_def seconds_frame_def ACCOUNT_ALIASES_def
      USAGE_TYPE_ALIASES_def example_row_def string_eval)

section \<open>Properties of the report assembler\<close>

lemma account_alias_facts:
  "c \<in> set ACCOUNT_ALIASES \<Longrightarrow> c \<notin> set USERNAME_ALIASES \<and> c \<noteq> ''username''"
  by (auto simp: ACCOUNT_ALIASES_def USERNAME_ALIASES_def)

lemma username_alias_facts:
  "c \<in> set USERNAME_ALIASES \<Longrightarrow> c \<notin> set ACCOUNT_ALIASES \<and> c \<noteq> ''account''"
  by (auto simp: ACCOUNT_ALIASES_def USERNAME_ALIASES_def)

lemma find_account_None:
  "find_first_column df ACCOUNT_ALIASES = None \<Longrightarrow> ''account'' \<notin> set (columns df)"
  by (auto simp: ACCOUNT_ALIASES_def split: if_splits)

lemma find_username_None:
  "find_first_column df USERNAME_ALIASES = None \<Longrightarrow> ''username'' \<notin> set (columns df)"
  by (auto simp: USERNAME_ALIASES_def split: if_splits)

lemma roster_base_columns: "columns (roster_base df) = [''Account'', ''Username'']"
  by (simp add: roster_base_def Let_def rename_column_def select_columns_def)

lemmas roster_base_unfold =
  roster_base_def Let_def rename_column_def select_columns_def
  assign_const_def map_column_def surviving_def roster_account_def roster_username_def
  str_endswith_def filter_map comp_def

lemma roster_base_pairs:
  "map (\<lambda>r. (cells r ''Account'', cells r ''Username'')) (rows (roster_base df))
     = map (\<lambda>r. (Str (roster_account df r), roster_username df r)) (surviving df)"
proof (cases "find_first_column df ACCOUNT_ALIASES")
  case None
  note a = None
  show ?thesis
  proof (cases "find_first_column df USERNAME_ALIASES")
    case None
    show ?thesis
      using a None find_account_None [OF a] find_username_None [OF None]
      by (simp add: roster_base_unfold)
  next
    case (Some uc)
    have u: "uc \<noteq> ''account''" "uc \<in> set (columns df)"
      using Some find_first_column_mem username_alias_facts by blast+
    show ?thesis
    proof (cases "uc = ''username''")
      case True
      then show ?thesis
        using a Some u find_account_None [OF a] by (simp add: roster_base_unfold)
    next
      case False
      then show ?thesis
        using a Some u find_account_None [OF a] by (simp add: roster_base_unfold)
    qed
  qed
next
  case (Some ac)
  note a = Some
  have ac: "ac \<noteq> ''username''" "ac \<in> set (columns df)" "ac \<notin> set USERNAME_ALIASES"
    using Some find_first_column_mem account_alias_facts by blast+
  show ?thesis
  proof (cases "find_first_column df USERNAME_ALIASES")
    case None
    show ?thesis
    proof (cases "ac = ''account''")
      case True
      then show ?thesis
        using a None ac find_username_None [OF None] by (simp add: roster_base_unfold)
    next
      case False
      then show ?thesis
        using a None ac find_username_None [OF None] by (simp add: roster_base_unfold)
    qed
  next
    case (Some uc)
    have u: "uc \<noteq> ''account''" "uc \<in> set (columns df)" "uc \<noteq> ac"
      using Some find_first_column_mem username_alias_facts ac(3) by blast+
    show ?thesis
    proof (cases "ac = ''account''")
      case True
      note t = True
      show ?thesis
      proof (cases "uc = ''username''")
        case True
        then show ?thesis using a Some ac u t by (simp add: roster_base_unfold)
      next
        case False
        then show ?thesis using a Some ac u t by (simp add: roster_base_unfold)
      qed
    next
      case False
      note f = False
      show ?thesis
      proof (cases "uc = ''username''")
        case True
        then show ?thesis using a Some ac u f by (simp add: roster_base_unfold)
      next
        case False
        have "''username'' \<in> set (map (\<lambda>c. if c = uc then ''username'' else c)
                 (map (\<lambda>c. if c = ac then ''account'' else c) (columns df)))"
          using u by force
        then show ?thesis using a Some ac u f False by (simp add: roster_base_unfold)
      qed
    qed
  qed
qed

lemma count_table_empty: "count_table empty_counts [] cnt"
  by (simp add: count_table_def empty_counts_def)

lemma count_table_filter:
  assumes "map (\<lambda>g. (cells g ''account'', cells g ''count'')) rs
             = map (\<lambda>k. (Str k, Num (int (cnt k)))) keys"
    and "distinct keys"
  shows "map (\<lambda>g. cells g ''count'') (filter (\<lambda>g. cells g ''account'' = c) rs)
           = (case c of Str a \<Rightarrow> if a \<in> set keys then [Num (int (cnt a))] else [] | _ \<Rightarrow> [])"
  using assms
proof (induction rs arbitrary: keys)
  case Nil
  then show ?case by (cases c) auto
next
  case (Cons g rs)
  then obtain k ks where k: "keys = k # ks" by (cases keys) auto
  with Cons.prems have g: "cells g ''account'' = Str k" "cells g ''count'' = Num (int (cnt k))"
    and rest: "map (\<lambda>g. (cells g ''account'', cells g ''count'')) rs
             = map (\<lambda>k. (Str k, Num (int (cnt k)))) ks"
    and d: "distinct ks" "k \<notin> set ks"
    by auto
  from Cons.IH [OF rest d(1)] g d(2) k show ?case
    by (cases c) auto
qed

lemma merge_left_count_table:
  assumes G: "count_table G keys cnt"
    and m: "m \<noteq> ''Account''" "m \<noteq> ''account''" "m \<noteq> ''count''"
  shows "rows (merge_left report
                 (rename_column ''count'' m (rename_column ''account'' ''Account'' G)) ''Account'')
           = map (\<lambda>l. l\<lparr>cells := (cells l)(m := joined_cell keys cnt (cells l ''Account''))\<rparr>)
               (rows report)"
    and "columns (merge_left report
                 (rename_column ''count'' m (rename_column ''account'' ''Account'' G)) ''Account'')
           = columns report @ [m]"
proof -
  define G' where "G' = rename_column ''count'' m (rename_column ''account'' ''Account'' G)"
  define ren :: "row \<Rightarrow> row" where "ren = (\<lambda>g. g\<lparr>cells := (\<lambda>c. if c = m then cells g ''count''
                      else if c = ''count'' then NaN
                      else if c = ''Account'' then cells g ''account''
                      else if c = ''account'' then NaN else cells g c)\<rparr>)"
  have rows': "rows G' = map ren (rows G)"
    using m G by (auto simp: G'_def rename_column_def ren_def fun_eq_iff count_table_def)
  have cols': "filter (\<lambda>c. c \<noteq> ''Account'') (columns G') = [m]"
    using G m by (simp add: G'_def rename_column_def count_table_def)
  have one: "(case filter (\<lambda>r. cells r ''Account'' = cells l ''Account'') (rows G') of
               [] \<Rightarrow> [l\<lparr>cells := (\<lambda>c. if c \<in> set [m] then NaN else cells l c)\<rparr>]
             | ms \<Rightarrow> map (\<lambda>r. l\<lparr>cells := (\<lambda>c. if c \<in> set [m] then cells r c else cells l c)\<rparr>) ms)
          = [l\<lparr>cells := (cells l)(m := joined_cell keys cnt (cells l ''Account''))\<rparr>]" for l
  proof -
    have f: "filter (\<lambda>r. cells r ''Account'' = cells l ''Account'') (rows G')
               = map ren (filter (\<lambda>g. cells g ''account'' = cells l ''Account'') (rows G))"
      using m by (simp add: rows' filter_map comp_def ren_def)
    have c: "map (\<lambda>g. cells g ''count'') (filter (\<lambda>g. cells g ''account'' = cells l ''Account'') (rows G))
           = (case cells l ''Account'' of
                Str a \<Rightarrow> if a \<in> set keys then [Num (int (cnt a))] else [] | _ \<Rightarrow> [])"
      using G by (intro count_table_filter) (simp_all add: count_table_def)
    show ?thesis
    proof (cases "filter (\<lambda>g. cells g ''account'' = cells l ''Account'') (rows G)")
      case Nil
      with c have "joined_cell keys cnt (cells l ''Account'') = NaN"
        by (auto simp: joined_cell_def split: cell.splits if_splits)
      then show ?thesis using Nil f by (simp add: fun_eq_iff fun_upd_def)
    next
      case (Cons g gs)
      with c have "gs = [] \<and> joined_cell keys cnt (cells l ''Account'') = cells g ''count''"
        by (auto simp: joined_cell_def split: cell.splits if_splits)
      then show ?thesis using Cons f m by (simp add: fun_eq_iff fun_upd_def ren_def)
    qed
  qed
  show "rows (merge_left report G' ''Account'')
           = map (\<lambda>l. l\<lparr>cells := (cells l)(m := joined_cell keys cnt (cells l ''Account''))\<rparr>)
               (rows report)"
    unfolding merge_left_def Let_def cols'
    by (simp add: one concat_map_singleton del: set_simps)
  show "columns (merge_left report G' ''Account'') = columns report @ [m]"
    unfolding merge_left_def Let_def cols' by simp
qed

lemma joined_cell_count_cell:
  assumes "\<forall>a. a \<in> set keys \<longleftrightarrow> 0 < cnt a"
  shows "joined_cell keys cnt c = count_cell cnt c"
  using assms by (cases c) (simp_all add: joined_cell_def count_cell_def)

lemma count_usage_table:
  "\<exists>keys. count_table (count_usage_by_account df usage_types) keys (usage_count df usage_types)
          \<and> (\<forall>a. a \<in> set keys \<longleftrightarrow> 0 < usage_count df usage_types a)"
proof (cases "\<not> empty df \<and> usage_types \<noteq> []
    \<and> find_first_column df ACCOUNT_ALIASES \<noteq> None \<and> find_first_column df USAGE_TYPE_ALIASES \<noteq> None")
  case True
  then obtain ac tc where a: "find_first_column df ACCOUNT_ALIASES = Some ac"
    and t: "find_first_column df USAGE_TYPE_ALIASES = Some tc" by auto
  from True have ne: "\<not> empty df" and ty: "usage_types \<noteq> []" by simp_all
  have c: "ac \<noteq> ''count''"
    using a find_first_column_mem account_alias_not_count by blast
  define keys where "keys = sort (remdups (map (\<lambda>e. normalize_account (cells e ac))
       (filter (\<lambda>e. \<exists>t \<in> set usage_types. cells e tc = Str t) (rows df))))"
  have cnt: "usage_count df usage_types = (\<lambda>k. length (filter
                       (\<lambda>e. (\<exists>t \<in> set usage_types. cells e tc = Str t)
                             \<and> normalize_account (cells e ac) = k) (rows df)))"
    by (simp add: usage_count_def a t fun_eq_iff)
  have "count_table (count_usage_by_account df usage_types) keys (usage_count df usage_types)"
    unfolding count_table_def count_usage_by_account_resolved [OF ne ty a t] cnt keys_def
    using c
    by (simp add: grouped_columns grouped_pairs group_keys_with_account group_size_with_account)
  moreover have "a \<in> set keys \<longleftrightarrow> 0 < usage_count df usage_types a" for a
    unfolding cnt keys_def by (auto simp: filter_empty_conv)
  ultimately show ?thesis by blast
next
  case False
  then have e: "count_usage_by_account df usage_types = empty_counts"
    by (auto simp: count_usage_by_account_def split: option.splits)
  have "usage_count df usage_types a = 0" for a
  proof (cases "find_first_column df ACCOUNT_ALIASES")
    case None
    then show ?thesis by (simp add: usage_count_def)
  next
    case (Some ac)
    note a = Some
    show ?thesis
    proof (cases "find_first_column df USAGE_TYPE_ALIASES")
      case None
      then show ?thesis by (simp add: usage_count_def a)
    next
      case (Some tc)
      have "columns df \<noteq> []" using a find_first_column_mem by fastforce
      with False a Some have "rows df = [] \<or> usage_types = []" by (auto simp: empty_def)
      then show ?thesis by (auto simp: usage_count_def a Some)
    qed
  qed
  then show ?thesis using e count_table_empty [of "usage_count df usage_types"]
    by (intro exI [of _ "[]"]) simp
qed

lemma count_askai_by_account_resolved:
  assumes "\<not> empty df" and "find_first_column df ACCOUNT_ALIASES = Some account_col"
  shows "count_askai_by_account df =
           rename_column account_col ''account''
             (groupby_size account_col (map (with_account account_col) (rows df)))"
  using assms by (simp add: count_askai_by_account_def rows_map_column_account)

lemma count_askai_table:
  "\<exists>keys. count_table (count_askai_by_account df) keys (askai_count df)
          \<and> (\<forall>a. a \<in> set keys \<longleftrightarrow> 0 < askai_count df a)"
proof (cases "\<not> empty df \<and> find_first_column df ACCOUNT_ALIASES \<noteq> None")
  case True
  then obtain ac where a: "find_first_column df ACCOUNT_ALIASES = Some ac" by auto
  from True have ne: "\<not> empty df" by simp
  have c: "ac \<noteq> ''count''"
    using a find_first_column_mem account_alias_not_count by blast
  define keys where "keys = sort (remdups (map (\<lambda>e. normalize_account (cells e ac)) (rows df)))"
  have cnt: "askai_count df = (\<lambda>k. length (filter
                       (\<lambda>e. normalize_account (cells e ac) = k) (rows df)))"
    by (simp add: askai_count_def a fun_eq_iff)
  have "count_table (count_askai_by_account df) keys (askai_count df)"
    unfolding count_table_def count_askai_by_account_resolved [OF ne a] cnt keys_def
    using c
    by (simp add: grouped_columns grouped_pairs group_keys_with_account group_size_with_account)
  moreover have "a \<in> set keys \<longleftrightarrow> 0 < askai_count df a" for a
    unfolding cnt keys_def by (auto simp: filter_empty_conv)
  ultimately show ?thesis by blast
next
  case False
  then have e: "count_askai_by_account df = empty_counts"
    by (auto simp: count_askai_by_account_def split: option.splits)
  have "askai_count df a = 0" for a
  proof (cases "find_first_column df ACCOUNT_ALIASES")
    case None
    then show ?thesis by (simp add: askai_count_def)
  next
    case (Some ac)
    have "columns df \<noteq> []" using Some find_first_column_mem by fastforce
    with False Some have "rows df = []" by (auto simp: empty_def)
    then show ?thesis by (simp add: askai_count_def Some)
  qed
  then show ?thesis using e count_table_empty [of "askai_count df"]
    by (intro exI [of _ "[]"]) simp
qed

lemma merge_metric_rows:
  assumes "fst m \<noteq> ''Account''" "fst m \<noteq> ''account''" "fst m \<noteq> ''count''"
  shows "rows (merge_metric usage_df m report)
           = map (with_count (fst m) (usage_count usage_df (snd m))) (rows report)"
    and "columns (merge_metric usage_df m report) = columns report @ [fst m]"
proof -
  obtain keys where k: "count_table (count_usage_by_account usage_df (snd m)) keys
                          (usage_count usage_df (snd m))"
    "\<forall>a. a \<in> set keys \<longleftrightarrow> 0 < usage_count usage_df (snd m) a"
    using count_usage_table by blast
  show "rows (merge_metric usage_df m report)
           = map (with_count (fst m) (usage_count usage_df (snd m))) (rows report)"
    unfolding merge_metric_def Let_def merge_left_count_table(1) [OF k(1) assms]
    by (simp add: with_count_def joined_cell_count_cell [OF k(2)])
  show "columns (merge_metric usage_df m report) = columns report @ [fst m]"
    unfolding merge_metric_def Let_def merge_left_count_table(2) [OF k(1) assms] by simp
qed

lemma merge_askai_rows:
  shows "rows (merge_askai askai_df report)
           = map (with_count ''AskAI Questions'' (askai_count askai_df)) (rows report)"
    and "columns (merge_askai askai_df report) = columns report @ [''AskAI Questions'']"
proof -
  obtain keys where k: "count_table (count_askai_by_account askai_df) keys (askai_count askai_df)"
    "\<forall>a. a \<in> set keys \<longleftrightarrow> 0 < askai_count askai_df a"
    using count_askai_table by blast
  have m: "''AskAI Questions'' \<noteq> ''Account''" "''AskAI Questions'' \<noteq> ''account''"
    "''AskAI Questions'' \<noteq> ''count''" by simp_all
  show "rows (merge_askai askai_df report)
           = map (with_count ''AskAI Questions'' (askai_count askai_df)) (rows report)"
    unfolding merge_askai_def Let_def merge_left_count_table(1) [OF k(1) m]
    by (simp add: with_count_def joined_cell_count_cell [OF k(2)])
  show "columns (merge_askai askai_df report) = columns report @ [''AskAI Questions'']"
    unfolding merge_askai_def Let_def merge_left_count_table(2) [OF k(1) m] by simp
qed

lemma fold_merge_metric:
  assumes "\<forall>m \<in> set ms. fst m \<noteq> ''Account'' \<and> fst m \<noteq> ''account'' \<and> fst m \<noteq> ''count''"
  shows "rows (fold (merge_metric usage_df) ms report)
           = map (fold (\<lambda>m. with_count (fst m) (usage_count usage_df (snd m))) ms) (rows report)
         \<and> columns (fold (merge_metric usage_df) ms report) = columns report @ map fst ms"
  using assms
proof (induction ms arbitrary: report)
  case Nil
  then show ?case by simp
next
  case (Cons m ms)
  then have m: "fst m \<noteq> ''Account''" "fst m \<noteq> ''account''" "fst m \<noteq> ''count''"
    and ms: "\<forall>m \<in> set ms. fst m \<noteq> ''Account'' \<and> fst m \<noteq> ''account'' \<and> fst m \<noteq> ''count''"
    by simp_all
  show ?case
    using Cons.IH [OF ms, of "merge_metric usage_df m report"]
    by (simp add: merge_metric_rows [OF m])
qed

lemma merged_report:
  "rows (merge_askai askai_df (fold (merge_metric usage_df) METRICS_USAGE_TYPE_MAP report))
     = map (merged_row usage_df askai_df) (rows report)"
  "columns (merge_askai askai_df (fold (merge_metric usage_df) METRICS_USAGE_TYPE_MAP report))
     = columns report @ columns_to_fill"
proof -
  have ok: "\<forall>m \<in> set METRICS_USAGE_TYPE_MAP.
              fst m \<noteq> ''Account'' \<and> fst m \<noteq> ''account'' \<and> fst m \<noteq> ''count''"
    by (simp add: METRICS_USAGE_TYPE_MAP_def)
  show "rows (merge_askai askai_df (fold (merge_metric usage_df) METRICS_USAGE_TYPE_MAP report))
     = map (merged_row usage_df askai_df) (rows report)"
    by (simp add: merge_askai_rows fold_merge_metric [OF ok] merged_row_def)
  show "columns (merge_askai askai_df (fold (merge_metric usage_df) METRICS_USAGE_TYPE_MAP report))
     = columns report @ columns_to_fill"
    by (simp add: merge_askai_rows fold_merge_metric [OF ok])
       (simp add: METRICS_USAGE_TYPE_MAP_def columns_to_fill_def)
qed

lemma merged_cells:
  "cells (merged_row usage_df askai_df l) ''Account'' = cells l ''Account''"
  "cells (merged_row usage_df askai_df l) ''Username'' = cells l ''Username''"
  "cells (merged_row usage_df askai_df l) ''AskAI Questions''
     = count_cell (askai_count askai_df) (cells l ''Account'')"
  "(m, usage_types) \<in> set METRICS_USAGE_TYPE_MAP \<Longrightarrow>
     cells (merged_row usage_df askai_df l) m
       = count_cell (usage_count usage_df usage_types) (cells l ''Account'')"
  by (auto simp: merged_row_def METRICS_USAGE_TYPE_MAP_def with_count_def)

lemma fillna0_idem: "fillna0 (fillna0 c) = fillna0 c"
  by (cases c) simp_all

lemma fillna0_not_Str: "\<not> is_Str c \<Longrightarrow> \<not> is_Str (fillna0 c)"
  by (cases c) (simp_all add: is_Str_def)

lemma astype_int_rows_fill:
  assumes "\<forall>r \<in> set rs. \<not> is_Str (cells r col)"
  shows "astype_int_rows col rs
           = Inr (map (\<lambda>r. r\<lparr>cells := (cells r)(col := fillna0 (cells r col))\<rparr>) rs)"
  using assms
proof (induction rs)
  case Nil
  then show ?case by simp
next
  case (Cons r rs)
  then have "\<not> is_Str (cells r col)" by simp
  then have "astype_int (fillna0 (cells r col)) = Inr (fillna0 (cells r col))"
    by (cases "cells r col") (simp_all add: is_Str_def)
  with Cons show ?case by (simp add: fun_upd_def)
qed

lemma fill_columns_filled:
  assumes "set cols \<subseteq> set (columns df)"
    and "\<forall>c \<in> set cols. \<forall>r \<in> set (rows df). \<not> is_Str (cells r c)"
  shows "fill_columns cols df = Inr (df\<lparr>rows := map (filled_row cols) (rows df)\<rparr>)"
  using assms
proof (induction cols arbitrary: df)
  case Nil
  then show ?case by (simp add: filled_row_def)
next
  case (Cons col cols)
  define df' where
    "df' = df\<lparr>rows := map (\<lambda>r. r\<lparr>cells := (cells r)(col := fillna0 (cells r col))\<rparr>) (rows df)\<rparr>"
  have one: "fill_column col df = Inr df'"
    using Cons.prems by (simp add: fill_column_def Let_def astype_int_rows_fill df'_def)
  have "set cols \<subseteq> set (columns df')"
    using Cons.prems by (simp add: df'_def)
  moreover have "\<forall>c \<in> set cols. \<forall>r \<in> set (rows df'). \<not> is_Str (cells r c)"
    using Cons.prems by (auto simp: df'_def fillna0_not_Str)
  ultimately have rest: "fill_columns cols df' = Inr (df'\<lparr>rows := map (filled_row cols) (rows df')\<rparr>)"
    by (rule Cons.IH)
  have "filled_row cols (r\<lparr>cells := (cells r)(col := fillna0 (cells r col))\<rparr>)
          = filled_row (col # cols) r" for r :: row
    by (auto simp: filled_row_def fun_eq_iff fillna0_idem)
  then show ?case
    by (simp add: one rest) (simp add: df'_def)
qed

lemma count_cell_not_Str: "\<not> is_Str (count_cell cnt c)"
  by (cases c) (simp_all add: count_cell_def is_Str_def)

lemma fillna0_count_cell: "fillna0 (count_cell cnt (Str a)) = Num (int (cnt a))"
  by (simp add: count_cell_def)

lemma columns_to_fill_metrics:
  "columns_to_fill = map fst METRICS_USAGE_TYPE_MAP @ [''AskAI Questions'']"
  by (simp add: columns_to_fill_def METRICS_USAGE_TYPE_MAP_def)

lemma merged_not_Str:
  assumes "c \<in> set columns_to_fill"
  shows "\<not> is_Str (cells (merged_row usage_df askai_df l) c)"
proof -
  from assms have "c = ''AskAI Questions'' \<or> (\<exists>types. (c, types) \<in> set METRICS_USAGE_TYPE_MAP)"
    unfolding columns_to_fill_metrics by force
  then show ?thesis
    by (auto simp: merged_cells count_cell_not_Str)
qed

lemma sort_key_map:
  "map f (sort_key (\<lambda>x. k (f x)) xs) = sort_key k (map f xs)"
proof (induction xs)
  case Nil
  then show ?case by simp
next
  case (Cons x xs)
  have ins: "map f (insort_key (\<lambda>x. k (f x)) x ys) = insort_key k (f x) (map f ys)" for ys
    by (induction ys) simp_all
  show ?case using Cons by (simp add: ins)
qed

lemma view_of_merged:
  assumes "cells l ''Account'' = Str a"
  shows "report_view (filled_row columns_to_fill (merged_row usage_df askai_df l))
           = (Str a, cells l ''Username'',
              map (\<lambda>m. Num (int (usage_count usage_df (snd m) a))) METRICS_USAGE_TYPE_MAP
              @ [Num (int (askai_count askai_df a))])"
proof -
  have not_filled: "''Account'' \<notin> set columns_to_fill" "''Username'' \<notin> set columns_to_fill"
    by (simp_all add: columns_to_fill_def)
  have askai: "''AskAI Questions'' \<in> set columns_to_fill"
    by (simp add: columns_to_fill_def)
  have metric: "cells (filled_row columns_to_fill (merged_row usage_df askai_df l)) (fst m)
                  = Num (int (usage_count usage_df (snd m) a))"
    if "m \<in> set METRICS_USAGE_TYPE_MAP" for m
  proof -
    from that have "fst m \<in> set columns_to_fill"
      unfolding columns_to_fill_metrics by simp
    moreover from that have "(fst m, snd m) \<in> set METRICS_USAGE_TYPE_MAP" by simp
    then have "cells (merged_row usage_df askai_df l) (fst m)
                 = count_cell (usage_count usage_df (snd m)) (cells l ''Account'')"
      by (rule merged_cells(4))
    ultimately show ?thesis
      using assms by (simp add: filled_row_def fillna0_count_cell)
  qed
  have ask: "cells (filled_row columns_to_fill (merged_row usage_df askai_df l)) ''AskAI Questions''
               = Num (int (askai_count askai_df a))"
    using askai assms by (simp add: filled_row_def merged_cells(3) fillna0_count_cell)
  have "map (cells (filled_row columns_to_fill (merged_row usage_df askai_df l)))
          (map fst METRICS_USAGE_TYPE_MAP @ [''AskAI Questions''])
          = map (\<lambda>m. Num (int (usage_count usage_df (snd m) a))) METRICS_USAGE_TYPE_MAP
            @ [Num (int (askai_count askai_df a))]"
    using metric ask by (simp add: comp_def)
  then have "map (cells (filled_row columns_to_fill (merged_row usage_df askai_df l))) columns_to_fill
          = map (\<lambda>m. Num (int (usage_count usage_df (snd m) a))) METRICS_USAGE_TYPE_MAP
            @ [Num (int (askai_count askai_df a))]"
    by (simp only: columns_to_fill_metrics)
  then show ?thesis
    using not_filled assms by (simp add: report_view_def filled_row_def merged_cells)
qed

lemma report_view_select:
  "report_view \<lparr>cells = (\<lambda>c. if c \<in> set REPORT_COLUMNS then cells r c else NaN), createdAt_dt = t\<rparr>
     = report_view r"
  by (simp add: report_view_def REPORT_COLUMNS_def columns_to_fill_def)

lemma build_report_empty:
  "empty accounts_df \<Longrightarrow>
     build_report_dataframe accounts_df usage_df askai_df = Inr \<lparr>columns = REPORT_COLUMNS, rows = []\<rparr>"
  by (simp add: build_report_dataframe_def)

lemma build_report_rows:
  assumes False: "\<not> empty accounts_df"
  shows "\<exists>report. build_report_dataframe accounts_df usage_df askai_df = Inr report
           \<and> columns report = REPORT_COLUMNS
           \<and> map report_view (rows report)
               = sort_key view_key
                   (map (expected_view accounts_df usage_df askai_df) (surviving accounts_df))"
proof -
  define base where "base = roster_base accounts_df"
  define report2 where
    "report2 = merge_askai askai_df (fold (merge_metric usage_df) METRICS_USAGE_TYPE_MAP base)"
  define rows3 where
    "rows3 = map (\<lambda>l. filled_row columns_to_fill (merged_row usage_df askai_df l)) (rows base)"
  define report3 where "report3 = report2\<lparr>rows := rows3\<rparr>"
  have pairs: "map (\<lambda>l. (cells l ''Account'', cells l ''Username'')) (rows base)
                 = map (\<lambda>r. (Str (roster_account accounts_df r), roster_username accounts_df r))
                     (surviving accounts_df)"
    unfolding base_def by (rule roster_base_pairs)
  have rows2: "rows report2 = map (merged_row usage_df askai_df) (rows base)"
    and cols2: "columns report2 = REPORT_COLUMNS"
    unfolding report2_def
    by (simp_all add: merged_report base_def roster_base_columns REPORT_COLUMNS_def columns_to_fill_def)
  have fill: "fill_columns columns_to_fill report2 = Inr report3"
  proof -
    have "set columns_to_fill \<subseteq> set (columns report2)"
      by (simp add: cols2 REPORT_COLUMNS_def columns_to_fill_def)
    moreover have "\<forall>c \<in> set columns_to_fill. \<forall>r \<in> set (rows report2). \<not> is_Str (cells r c)"
      by (auto simp: rows2 merged_not_Str)
    ultimately show ?thesis
      by (simp add: fill_columns_filled report3_def rows3_def rows2 comp_def)
  qed
  have user_in: "''Username'' \<in> set (columns report3)"
    by (simp add: report3_def cols2 REPORT_COLUMNS_def)
  have acct: "\<forall>l \<in> set (rows base). \<exists>a. cells l ''Account'' = Str a"
  proof
    fix l assume "l \<in> set (rows base)"
    then have "(cells l ''Account'', cells l ''Username'')
                 \<in> set (map (\<lambda>l. (cells l ''Account'', cells l ''Username'')) (rows base))"
      by force
    then show "\<exists>a. cells l ''Account'' = Str a"
      unfolding pairs by auto
  qed
  have views: "map report_view rows3
                 = map (expected_view accounts_df usage_df askai_df) (surviving accounts_df)"
  proof -
    define V where "V = (\<lambda>p :: cell \<times> cell.
        (fst p, snd p,
         (case fst p of
            Str a \<Rightarrow> map (\<lambda>m. Num (int (usage_count usage_df (snd m) a))) METRICS_USAGE_TYPE_MAP
                     @ [Num (int (askai_count askai_df a))]
          | _ \<Rightarrow> [])))"
    have "report_view (filled_row columns_to_fill (merged_row usage_df askai_df l))
            = V (cells l ''Account'', cells l ''Username'')" if "l \<in> set (rows base)" for l
    proof -
      from acct that obtain a where a: "cells l ''Account'' = Str a" by blast
      show ?thesis by (simp add: view_of_merged [OF a] V_def a)
    qed
    then have "map report_view rows3
                 = map V (map (\<lambda>l. (cells l ''Account'', cells l ''Username'')) (rows base))"
      by (simp add: rows3_def comp_def)
    also have "\<dots> = map (expected_view accounts_df usage_df askai_df) (surviving accounts_df)"
      unfolding pairs by (simp add: V_def expected_view_def comp_def)
    finally show ?thesis .
  qed
  have key: "row_key [''Username'', ''Account''] = (\<lambda>r. view_key (report_view r))"
    by (simp add: row_key_def view_key_def report_view_def fun_eq_iff)
  have sort: "sort_values [''Username'', ''Account''] report3 =
     Inr (report3\<lparr>rows := sort_key (\<lambda>r. view_key (report_view r)) rows3\<rparr>)"
    by (simp add: sort_values_def report3_def key)
  have build: "build_report_dataframe accounts_df usage_df askai_df =
     Inr (select_columns REPORT_COLUMNS
            (report3\<lparr>rows := sort_key (\<lambda>r. view_key (report_view r)) rows3\<rparr>))"
    using False fill user_in sort
    by (simp add: build_report_dataframe_def Let_def base_def [symmetric] report2_def [symmetric])
  have final: "map report_view (rows (select_columns REPORT_COLUMNS
                  (report3\<lparr>rows := sort_key (\<lambda>r. view_key (report_view r)) rows3\<rparr>)))
         = sort_key view_key (map report_view rows3)"
    by (simp add: select_columns_def comp_def report_view_select sort_key_map)
  show ?thesis
    unfolding build using final views by (simp add: select_columns_def)
qed

lemma build_report_view:
  assumes wf: "columns accounts_df = [] \<longrightarrow> rows accounts_df = []"
  shows "\<exists>report. build_report_dataframe accounts_df usage_df askai_df = Inr report
           \<and> columns report = REPORT_COLUMNS
           \<and> map report_view (rows report)
               = sort_key view_key
                   (map (expected_view accounts_df usage_df askai_df) (surviving accounts_df))"
proof (cases "empty accounts_df")
  case True
  with wf have "rows accounts_df = []" by (auto simp: empty_def)
  then have "surviving accounts_df = []" by (simp add: surviving_def)
  then show ?thesis using True by (simp add: build_report_empty)
next
  case False
  then show ?thesis by (rule build_report_rows)
qed

section \<open>Properties of the report table\<close>

lemma expected_view_cells:
  assumes "report_view row = expected_view accounts_df usage_df askai_df r"
  shows "cells row ''Account'' = Str (roster_account accounts_df r)"
    and "cells row ''Username'' = roster_username accounts_df r"
    and "cells row ''AskAI Questions''
           = Num (int (askai_count askai_df (roster_account accounts_df r)))"
    and "(m, usage_types) \<in> set METRICS_USAGE_TYPE_MAP \<Longrightarrow>
           cells row m = Num (int (usage_count usage_df usage_types (roster_account accounts_df r)))"
proof -
  from assms show "cells row ''Account'' = Str (roster_account accounts_df r)"
    and "cells row ''Username'' = roster_username accounts_df r"
    by (simp_all add: report_view_def expected_view_def)
  from assms have m: "map (cells row) (map fst METRICS_USAGE_TYPE_MAP @ [''AskAI Questions''])
      = map (\<lambda>m. Num (int (usage_count usage_df (snd m) (roster_account accounts_df r))))
          METRICS_USAGE_TYPE_MAP
        @ [Num (int (askai_count askai_df (roster_account accounts_df r)))]"
    by (simp add: report_view_def expected_view_def columns_to_fill_metrics)
  then show "cells row ''AskAI Questions''
           = Num (int (askai_count askai_df (roster_account accounts_df r)))"
    by simp
  from m have "\<forall>m \<in> set METRICS_USAGE_TYPE_MAP.
      cells row (fst m) = Num (int (usage_count usage_df (snd m) (roster_account accounts_df r)))"
    by (simp add: comp_def)
  then show "(m, usage_types) \<in> set METRICS_USAGE_TYPE_MAP \<Longrightarrow>
           cells row m = Num (int (usage_count usage_df usage_types (roster_account accounts_df r)))"
    by fastforce
qed

lemma sorted_views:
  assumes "map report_view rs = sort_key view_key (map E S)"
  shows "length rs = length S"
    and "\<forall>row \<in> set rs. \<exists>r \<in> set S. report_view row = E r"
    and "mset (map report_view rs) = mset (map E S)"
proof -
  show "length rs = length S"
    using arg_cong [OF assms, of length] by simp
  show "mset (map report_view rs) = mset (map E S)"
    using assms by simp
  show "\<forall>row \<in> set rs. \<exists>r \<in> set S. report_view row = E r"
  proof
    fix row assume "row \<in> set rs"
    then have "report_view row \<in> set (map report_view rs)" by simp
    then have "report_view row \<in> set (map E S)" unfolding assms by simp
    then show "\<exists>r \<in> set S. report_view row = E r" by auto
  qed
qed

text \<open>
  C2. Take a roster in which rows come with at least one column, as every frame built from
  a scan is, whatever its labels are. For every frame of usage events and every frame of
  ask-AI events, empty and malformed ones included, the assembler returns a table that has
  every metric column, exactly one row per roster account that survives the exclusion, and
  in every metric column of every row a whole number that is not negative: the number of
  matching events of the row's account, hence 0 when there are none.
\<close>

theorem report_one_row_per_account:
  assumes "columns accounts_df = [] \<longrightarrow> rows accounts_df = []"
  shows "\<exists>report. build_report_dataframe accounts_df usage_df askai_df = Inr report
     \<and> set columns_to_fill \<subseteq> set (columns report)
     \<and> length (rows report) = length (surviving accounts_df)
     \<and> mset (map (\<lambda>row. cells row ''Account'') (rows report))
         = mset (map (\<lambda>r. Str (roster_account accounts_df r)) (surviving accounts_df))
     \<and> (\<forall>row \<in> set (rows report). \<exists>a.
           cells row ''Account'' = Str a
           \<and> (\<forall>(m, usage_types) \<in> set METRICS_USAGE_TYPE_MAP.
                 cells row m = Num (int (usage_count usage_df usage_types a)))
           \<and> cells row ''AskAI Questions'' = Num (int (askai_count askai_df a))
           \<and> (\<forall>c \<in> set columns_to_fill. \<exists>n. cells row c = Num n \<and> 0 \<le> n))"
proof -
  from build_report_view [OF assms, of usage_df askai_df]
  obtain report where b: "build_report_dataframe accounts_df usage_df askai_df = Inr report"
    and c: "columns report = REPORT_COLUMNS"
    and v: "map report_view (rows report)
              = sort_key view_key
                  (map (expected_view accounts_df usage_df askai_df) (surviving accounts_df))"
    by blast
  note s = sorted_views [OF v]
  have cols: "set columns_to_fill \<subseteq> set (columns report)"
    by (simp add: c REPORT_COLUMNS_def columns_to_fill_def)
  have a1: "map fst (map report_view (rows report)) = map (\<lambda>row. cells row ''Account'') (rows report)"
    by (simp add: report_view_def comp_def)
  have a2: "map fst (map (expected_view accounts_df usage_df askai_df) (surviving accounts_df))
      = map (\<lambda>r. Str (roster_account accounts_df r)) (surviving accounts_df)"
    by (simp add: expected_view_def comp_def)
  have "mset (map fst (map report_view (rows report)))
      = mset (map fst (map (expected_view accounts_df usage_df askai_df) (surviving accounts_df)))"
    using arg_cong [OF s(3), of "image_mset fst"] by (simp only: mset_map)
  then have ms: "mset (map (\<lambda>row. cells row ''Account'') (rows report))
         = mset (map (\<lambda>r. Str (roster_account accounts_df r)) (surviving accounts_df))"
    by (simp only: a1 a2)
  have each: "\<exists>a. cells row ''Account'' = Str a
           \<and> (\<forall>(m, usage_types) \<in> set METRICS_USAGE_TYPE_MAP.
                 cells row m = Num (int (usage_count usage_df usage_types a)))
           \<and> cells row ''AskAI Questions'' = Num (int (askai_count askai_df a))
           \<and> (\<forall>c \<in> set columns_to_fill. \<exists>n. cells row c = Num n \<and> 0 \<le> n)"
    if "row \<in> set (rows report)" for row
  proof -
    from s(2) that obtain r where
      e: "report_view row = expected_view accounts_df usage_df askai_df r" by blast
    note x = expected_view_cells [OF e]
    have "\<exists>n. cells row c = Num n \<and> 0 \<le> n" if "c \<in> set columns_to_fill" for c
    proof -
      from that have "c = ''AskAI Questions'' \<or> (\<exists>t. (c, t) \<in> set METRICS_USAGE_TYPE_MAP)"
        unfolding columns_to_fill_metrics by force
      then show ?thesis using x(3,4) by auto
    qed
    then show ?thesis using x by auto
  qed
  show ?thesis using b cols s(1) ms each by blast
qed

lemmas example_eval =
  example_roster_def example_usage_def example_askai_def example_row_def
  surviving_def roster_account_def roster_username_def usage_count_def askai_count_def
  ACCOUNT_ALIASES_def USERNAME_ALIASES_def USAGE_TYPE_ALIASES_def string_eval

lemma example_surviving:
  "map (\<lambda>r. (roster_account example_roster r, roster_username example_roster r))
     (surviving example_roster)
   = [(''z@x.com'', Str ''Zed''), (''b@x.com'', NaN), (''a@x.com'', Str ''Alice'')]"
  by (simp add: example_eval)

text \<open>
  The example roster against the example events: three rows, and the row of
  \<open>a@x.com\<close> with its two transcripts, its two questions and zeros elsewhere.
\<close>

theorem report_one_row_per_account_witness:
  "\<exists>report. build_report_dataframe example_roster example_usage example_askai = Inr report
     \<and> set columns_to_fill \<subseteq> set (columns report)
     \<and> length (rows report) = 3
     \<and> mset (map (\<lambda>row. cells row ''Account'') (rows report))
         = mset [Str ''z@x.com'', Str ''b@x.com'', Str ''a@x.com'']
     \<and> (\<forall>row \<in> set (rows report). \<forall>c \<in> set columns_to_fill. \<exists>n. cells row c = Num n \<and> 0 \<le> n)
     \<and> (\<forall>row \<in> set (rows report). cells row ''Account'' = Str ''a@x.com'' \<longrightarrow>
           cells row ''Generated Transcripts'' = Num 2
           \<and> cells row ''Initial Summaries'' = Num 0
           \<and> cells row ''Logins'' = Num 0
           \<and> cells row ''AskAI Questions'' = Num 2)"
proof -
  have wf: "columns example_roster = [] \<longrightarrow> rows example_roster = []"
    by (simp add: example_roster_def)
  have u: "map (roster_username example_roster) (surviving example_roster)
             = [Str ''Zed'', NaN, Str ''Alice'']"
    using arg_cong [OF example_surviving, of "map snd"] by (simp add: comp_def)
  have a: "map (\<lambda>r. Str (roster_account example_roster r)) (surviving example_roster)
             = [Str ''z@x.com'', Str ''b@x.com'', Str ''a@x.com'']"
    using arg_cong [OF example_surviving, of "map (\<lambda>p. Str (fst p))"] by (simp add: comp_def)
  have n: "length (surviving example_roster) = 3"
    using arg_cong [OF u, of length] by simp
  have t: "usage_count example_usage [''transcript''] ''a@x.com'' = 2"
    "usage_count example_usage [''initial summary''] ''a@x.com'' = 0"
    "usage_count example_usage [] ''a@x.com'' = 0"
    "askai_count example_askai ''a@x.com'' = 2"
    by (simp_all add: example_eval)
  have m: "(''Generated Transcripts'', [''transcript'']) \<in> set METRICS_USAGE_TYPE_MAP"
    "(''Initial Summaries'', [''initial summary'']) \<in> set METRICS_USAGE_TYPE_MAP"
    "(''Logins'', []) \<in> set METRICS_USAGE_TYPE_MAP"
    by (simp_all add: METRICS_USAGE_TYPE_MAP_def)
  from report_one_row_per_account [OF wf, of example_usage example_askai]
  obtain report where r: "build_report_dataframe example_roster example_usage example_askai = Inr report"
    "set columns_to_fill \<subseteq> set (columns report)"
    "length (rows report) = length (surviving example_roster)"
    "mset (map (\<lambda>row. cells row ''Account'') (rows report))
         = mset (map (\<lambda>r. Str (roster_account example_roster r)) (surviving example_roster))"
    "\<forall>row \<in> set (rows report). \<exists>a.
           cells row ''Account'' = Str a
           \<and> (\<forall>(m, usage_types) \<in> set METRICS_USAGE_TYPE_MAP.
                 cells row m = Num (int (usage_count example_usage usage_types a)))
           \<and> cells row ''AskAI Questions'' = Num (int (askai_count example_askai a))
           \<and> (\<forall>c \<in> set columns_to_fill. \<exists>n. cells row c = Num n \<and> 0 \<le> n)"
    by blast
  have "cells row ''Generated Transcripts'' = Num 2
           \<and> cells row ''Initial Summaries'' = Num 0
           \<and> cells row ''Logins'' = Num 0
           \<and> cells row ''AskAI Questions'' = Num 2"
    if "row \<in> set (rows report)" "cells row ''Account'' = Str ''a@x.com''" for row
    using r(5) that m t by fastforce
  then show ?thesis
    using r(1,2,5) r(3) [unfolded n] r(4) [unfolded a] by blast
qed

lemma endswith_iff: "endswith s suffix \<longleftrightarrow> (\<exists>p. s = p @ suffix)"
proof
  assume "endswith s suffix"
  then have "take (length suffix) (rev s) = rev suffix" by (simp add: endswith_def)
  then have "rev s = rev suffix @ drop (length suffix) (rev s)"
    by (metis append_take_drop_id)
  then have "s = rev (drop (length suffix) (rev s)) @ suffix"
    by (metis rev_append rev_rev_ident)
  then show "\<exists>p. s = p @ suffix" ..
next
  assume "\<exists>p. s = p @ suffix"
  then show "endswith s suffix" by (auto simp: endswith_def)
qed

lemma endswith_lower_iff:
  "endswith (py_lower s) suffix \<longleftrightarrow> (\<exists>p t. s = p @ t \<and> py_lower t = suffix)"
  by (auto simp: endswith_iff py_lower_def map_eq_append_conv)

text \<open>
  C3. For a roster as in C2, and whatever the events are, the identities in the Account
  column of the report are exactly the normalized (trimmed, lower-cased) identities of the
  roster rows that do not end with \<open>@thinkcol.com\<close>. So no identity with that suffix is in
  the report, events or not, and no identity that is missing from the roster is in it. The
  suffix is tested on the lower-cased identity, which amounts to matching it in any mix of
  cases.
\<close>

theorem report_accounts_from_roster:
  assumes "columns accounts_df = [] \<longrightarrow> rows accounts_df = []"
  shows "\<exists>report. build_report_dataframe accounts_df usage_df askai_df = Inr report
     \<and> (\<lambda>row. cells row ''Account'') ` set (rows report)
         = {Str (roster_account accounts_df r) | r.
              r \<in> set (rows accounts_df)
              \<and> \<not> endswith (roster_account accounts_df r) ''@thinkcol.com''}
     \<and> (\<forall>a. endswith a ''@thinkcol.com'' \<longrightarrow>
            Str a \<notin> (\<lambda>row. cells row ''Account'') ` set (rows report))
     \<and> (\<forall>a. a \<notin> roster_account accounts_df ` set (rows accounts_df) \<longrightarrow>
            Str a \<notin> (\<lambda>row. cells row ''Account'') ` set (rows report))
     \<and> (\<forall>s. endswith (py_lower s) ''@thinkcol.com''
            \<longleftrightarrow> (\<exists>p t. s = p @ t \<and> py_lower t = ''@thinkcol.com''))"
proof -
  from build_report_view [OF assms, of usage_df askai_df]
  obtain report where b: "build_report_dataframe accounts_df usage_df askai_df = Inr report"
    and v: "map report_view (rows report)
              = sort_key view_key
                  (map (expected_view accounts_df usage_df askai_df) (surviving accounts_df))"
    by blast
  have "map (\<lambda>row. cells row ''Account'') (rows report) = map fst (map report_view (rows report))"
    by (simp add: report_view_def comp_def)
  then have "set (map (\<lambda>row. cells row ''Account'') (rows report))
               = fst ` set (map report_view (rows report))"
    by (simp only: set_map)
  also have "\<dots> = fst ` set (map (expected_view accounts_df usage_df askai_df) (surviving accounts_df))"
    unfolding v by simp
  also have "\<dots> = {Str (roster_account accounts_df r) | r.
              r \<in> set (rows accounts_df)
              \<and> \<not> endswith (roster_account accounts_df r) ''@thinkcol.com''}"
    by (auto simp: expected_view_def surviving_def image_iff)
  finally have eq: "(\<lambda>row. cells row ''Account'') ` set (rows report)
         = {Str (roster_account accounts_df r) | r.
              r \<in> set (rows accounts_df)
              \<and> \<not> endswith (roster_account accounts_df r) ''@thinkcol.com''}"
    by simp
  have f1: "\<forall>a. endswith a ''@thinkcol.com'' \<longrightarrow>
            Str a \<notin> (\<lambda>row. cells row ''Account'') ` set (rows report)"
    unfolding eq by simp blast
  have f2: "\<forall>a. a \<notin> roster_account accounts_df ` set (rows accounts_df) \<longrightarrow>
            Str a \<notin> (\<lambda>row. cells row ''Account'') ` set (rows report)"
    unfolding eq by (simp add: image_iff)
  show ?thesis
    by (intro exI [of _ report] conjI b eq f1 f2 allI endswith_lower_iff)
qed

text \<open>
  The staff account \<open>Admin@ThinkCol.com\<close> is on the example roster and has a transcript
  event; \<open>ghost@x.com\<close> has one too and is not on the roster. Neither is in the report.
\<close>

theorem report_accounts_from_roster_witness:
  "\<exists>report. build_report_dataframe example_roster example_usage example_askai = Inr report
     \<and> (\<lambda>row. cells row ''Account'') ` set (rows report)
         = {Str ''z@x.com'', Str ''b@x.com'', Str ''a@x.com''}
     \<and> Str ''admin@thinkcol.com'' \<notin> (\<lambda>row. cells row ''Account'') ` set (rows report)
     \<and> Str ''ghost@x.com'' \<notin> (\<lambda>row. cells row ''Account'') ` set (rows report)
     \<and> normalize_account (Str ''Admin@ThinkCol.com'') = ''admin@thinkcol.com''
     \<and> usage_count example_usage [''transcript''] ''admin@thinkcol.com'' = 1
     \<and> usage_count example_usage [''transcript''] ''ghost@x.com'' = 1"
proof -
  have wf: "columns example_roster = [] \<longrightarrow> rows example_roster = []"
    by (simp add: example_roster_def)
  have a: "map (\<lambda>r. Str (roster_account example_roster r)) (surviving example_roster)
             = [Str ''z@x.com'', Str ''b@x.com'', Str ''a@x.com'']"
    using arg_cong [OF example_surviving, of "map (\<lambda>p. Str (fst p))"] by (simp add: comp_def)
  have "{Str (roster_account example_roster r) | r.
              r \<in> set (rows example_roster)
              \<and> \<not> endswith (roster_account example_roster r) ''@thinkcol.com''}
          = set (map (\<lambda>r. Str (roster_account example_roster r)) (surviving example_roster))"
    by (auto simp: surviving_def)
  then have s: "{Str (roster_account example_roster r) | r.
              r \<in> set (rows example_roster)
              \<and> \<not> endswith (roster_account example_roster r) ''@thinkcol.com''}
          = {Str ''z@x.com'', Str ''b@x.com'', Str ''a@x.com''}"
    unfolding a by simp
  have e: "normalize_account (Str ''Admin@ThinkCol.com'') = ''admin@thinkcol.com''"
    "usage_count example_usage [''transcript''] ''admin@thinkcol.com'' = 1"
    "usage_count example_usage [''transcript''] ''ghost@x.com'' = 1"
    by (simp_all add: example_eval)
  from report_accounts_from_roster [OF wf, of example_usage example_askai]
  obtain report where
    "build_report_dataframe example_roster example_usage example_askai = Inr report
     \<and> (\<lambda>row. cells row ''Account'') ` set (rows report)
         = {Str (roster_account example_roster r) | r.
              r \<in> set (rows example_roster)
              \<and> \<not> endswith (roster_account example_roster r) ''@thinkcol.com''}
     \<and> (\<forall>a. endswith a ''@thinkcol.com'' \<longrightarrow>
            Str a \<notin> (\<lambda>row. cells row ''Account'') ` set (rows report))
     \<and> (\<forall>a. a \<notin> roster_account example_roster ` set (rows example_roster) \<longrightarrow>
            Str a \<notin> (\<lambda>row. cells row ''Account'') ` set (rows report))
     \<and> (\<forall>s. endswith (py_lower s) ''@thinkcol.com''
            \<longleftrightarrow> (\<exists>p t. s = p @ t \<and> py_lower t = ''@thinkcol.com''))" ..
  then have r: "build_report_dataframe example_roster example_usage example_askai = Inr report"
    "(\<lambda>row. cells row ''Account'') ` set (rows report)
         = {Str (roster_account example_roster r) | r.
              r \<in> set (rows example_roster)
              \<and> \<not> endswith (roster_account example_roster r) ''@thinkcol.com''}"
    by (rule conjunct1, rule conjunct2 [THEN conjunct1])
  have "Str ''admin@thinkcol.com'' \<notin> (\<lambda>row. cells row ''Account'') ` set (rows report)"
    "Str ''ghost@x.com'' \<notin> (\<lambda>row. cells row ''Account'') ` set (rows report)"
    unfolding r(2) s by simp_all
  then show ?thesis
    by (intro exI [of _ report] conjI r(1) r(2) [unfolded s] e)
qed

lemma row_key_view: "row_key [''Username'', ''Account''] r = view_key (report_view r)"
  by (simp add: row_key_def view_key_def report_view_def)

lemma sorted_report:
  assumes "map report_view rs = sort_key view_key vs"
  shows "sorted (map (row_key [''Username'', ''Account'']) rs)"
    and "map (\<lambda>row. (cells row ''Username'', cells row ''Account''))
           (filter (\<lambda>row. row_key [''Username'', ''Account''] row = k) rs)
         = map (\<lambda>v. (fst (snd v), fst v)) (filter (\<lambda>v. view_key v = k) vs)"
proof -
  have "map (row_key [''Username'', ''Account'']) rs = map view_key (map report_view rs)"
    by (simp add: row_key_view comp_def)
  then show "sorted (map (row_key [''Username'', ''Account'']) rs)"
    unfolding assms by (simp add: sorted_sort_key)
  have "map (\<lambda>row. (cells row ''Username'', cells row ''Account''))
           (filter (\<lambda>row. row_key [''Username'', ''Account''] row = k) rs)
        = map (\<lambda>v. (fst (snd v), fst v)) (filter (\<lambda>v. view_key v = k) (map report_view rs))"
    by (simp add: filter_map comp_def row_key_view) (simp add: report_view_def)
  then show "map (\<lambda>row. (cells row ''Username'', cells row ''Account''))
           (filter (\<lambda>row. row_key [''Username'', ''Account''] row = k) rs)
         = map (\<lambda>v. (fst (snd v), fst v)) (filter (\<lambda>v. view_key v = k) vs)"
    unfolding assms by (simp add: sort_key_stable)
qed

lemma pair_le:
  fixes a b c d :: "'a :: linorder"
  shows "[a, b] \<le> [c, d] \<longleftrightarrow> a < c \<or> (a = c \<and> b \<le> d)"
  by (auto simp: list_le_def)
lemma cell_key_less:
  "cell_key x < cell_key y \<Longrightarrow>
     (isna x \<longrightarrow> isna y)
     \<and> (x = Str s \<and> y = Str t \<longrightarrow> s \<le> t)
     \<and> (x = Num m \<and> y = Num n \<longrightarrow> m \<le> n)
     \<and> (x = Str s \<longrightarrow> y \<noteq> Num n)"
  by (cases x; cases y) (auto simp: cell_key_def isna_def is_Str_def less_prod_def)
lemma cell_key_le_Str:
  "cell_key (Str a) \<le> cell_key (Str b) \<Longrightarrow> a \<le> b"
  by (auto simp: cell_key_def isna_def is_Str_def less_eq_prod_def)
lemma row_key_le:
  assumes "row_key [''Username'', ''Account''] r1 \<le> row_key [''Username'', ''Account''] r2"
  shows "isna (cells r1 ''Username'') \<longrightarrow> isna (cells r2 ''Username'')"
    and "cells r1 ''Username'' = Str s \<and> cells r2 ''Username'' = Str t \<longrightarrow> s \<le> t"
    and "cells r1 ''Username'' = Num m \<and> cells r2 ''Username'' = Num n \<longrightarrow> m \<le> n"
    and "cells r1 ''Username'' = Str s \<longrightarrow> cells r2 ''Username'' \<noteq> Num n"
    and "cells r1 ''Username'' = cells r2 ''Username''
           \<and> cells r1 ''Account'' = Str a \<and> cells r2 ''Account'' = Str b \<longrightarrow> a \<le> b"
proof -
  from assms have d: "cell_key (cells r1 ''Username'') < cell_key (cells r2 ''Username'')
      \<or> (cell_key (cells r1 ''Username'') = cell_key (cells r2 ''Username'')
          \<and> cell_key (cells r1 ''Account'') \<le> cell_key (cells r2 ''Account''))"
    by (auto simp: row_key_def pair_le)
  have e: "cell_key x = cell_key y \<Longrightarrow>
     (isna x \<longrightarrow> isna y)
     \<and> (x = Str s \<and> y = Str t \<longrightarrow> s \<le> t)
     \<and> (x = Num m \<and> y = Num n \<longrightarrow> m \<le> n)
     \<and> (x = Str s \<longrightarrow> y \<noteq> Num n)" for x y
    by (cases x; cases y) (auto simp: cell_key_def isna_def is_Str_def)
  from d have u: "(isna (cells r1 ''Username'') \<longrightarrow> isna (cells r2 ''Username''))
     \<and> (cells r1 ''Username'' = Str s \<and> cells r2 ''Username'' = Str t \<longrightarrow> s \<le> t)
     \<and> (cells r1 ''Username'' = Num m \<and> cells r2 ''Username'' = Num n \<longrightarrow> m \<le> n)
     \<and> (cells r1 ''Username'' = Str s \<longrightarrow> cells r2 ''Username'' \<noteq> Num n)"
    using cell_key_less [of "cells r1 ''Username''" "cells r2 ''Username''" s t m n]
      e [of "cells r1 ''Username''" "cells r2 ''Username''"]
    by fast
  from u show "isna (cells r1 ''Username'') \<longrightarrow> isna (cells r2 ''Username'')" by (rule conjunct1)
  from u show "cells r1 ''Username'' = Str s \<and> cells r2 ''Username'' = Str t \<longrightarrow> s \<le> t"
    by (rule conjunct2 [THEN conjunct1])
  from u show "cells r1 ''Username'' = Num m \<and> cells r2 ''Username'' = Num n \<longrightarrow> m \<le> n"
    by (rule conjunct2 [THEN conjunct2, THEN conjunct1])
  from u show "cells r1 ''Username'' = Str s \<longrightarrow> cells r2 ''Username'' \<noteq> Num n"
    by (rule conjunct2 [THEN conjunct2, THEN conjunct2])
  show "cells r1 ''Username'' = cells r2 ''Username''
           \<and> cells r1 ''Account'' = Str a \<and> cells r2 ''Account'' = Str b \<longrightarrow> a \<le> b"
  proof
    assume h: "cells r1 ''Username'' = cells r2 ''Username''
           \<and> cells r1 ''Account'' = Str a \<and> cells r2 ''Account'' = Str b"
    with d have "cell_key (Str a) \<le> cell_key (Str b)" by simp
    then show "a \<le> b" by (rule cell_key_le_Str)
  qed
qed

lemma sorted_rows_nth:
  assumes "sorted (map (row_key [''Username'', ''Account'']) rs)" "i < j" "j < length rs"
  shows "row_key [''Username'', ''Account''] (rs ! i) \<le> row_key [''Username'', ''Account''] (rs ! j)"
  using sorted_nth_mono [OF assms(1), of i j] assms(2,3) by simp

lemma insort_key_same_order:
  assumes "\<forall>y \<in> set ys. k1 x \<le> k1 y \<longleftrightarrow> k2 x \<le> k2 y"
  shows "insort_key k1 x ys = insort_key k2 x ys"
  using assms by (induction ys) simp_all

lemma sort_key_same_order:
  assumes "\<forall>x \<in> set xs. \<forall>y \<in> set xs. k1 x \<le> k1 y \<longleftrightarrow> k2 x \<le> k2 y"
  shows "sort_key k1 xs = sort_key k2 xs"
  using assms
proof (induction xs)
  case Nil
  then show ?case by simp
next
  case (Cons x xs)
  then have "sort_key k1 xs = sort_key k2 xs" by simp
  moreover have "insort_key k1 x (sort_key k2 xs) = insort_key k2 x (sort_key k2 xs)"
    using Cons.prems by (intro insort_key_same_order) simp
  ultimately show ?case by simp
qed

lemma account_only_order:
  assumes "\<forall>r \<in> set S. roster_username accounts_df r = PyNone"
  shows "map fst (sort_key view_key (map (expected_view accounts_df usage_df askai_df) S))
           = map Str (sort (map (roster_account accounts_df) S))"
proof -
  have k: "sort_key (\<lambda>r. view_key (expected_view accounts_df usage_df askai_df r)) S
             = sort_key (roster_account accounts_df) S"
    using assms
    by (intro sort_key_same_order)
       (auto simp: view_key_def expected_view_def cell_key_def isna_def is_Str_def
          less_eq_prod_def less_prod_def)
  have "sort_key view_key (map (expected_view accounts_df usage_df askai_df) S)
          = map (expected_view accounts_df usage_df askai_df)
              (sort_key (\<lambda>r. view_key (expected_view accounts_df usage_df askai_df r)) S)"
    by (simp add: sort_key_map)
  then have "map fst (sort_key view_key (map (expected_view accounts_df usage_df askai_df) S))
      = map (\<lambda>r. Str (roster_account accounts_df r)) (sort_key (roster_account accounts_df) S)"
    unfolding k by (simp add: expected_view_def comp_def)
  also have "\<dots> = map Str (map (roster_account accounts_df) (sort_key (roster_account accounts_df) S))"
    by (simp add: comp_def)
  also have "map (roster_account accounts_df) (sort_key (roster_account accounts_df) S)
               = sort (map (roster_account accounts_df) S)"
    using sort_key_map [of "roster_account accounts_df" "\<lambda>x. x" S] by simp
  finally show ?thesis .
qed

text \<open>
  C5. For every roster whose rows come with a column, whatever its labels are, the
  assembler returns a report, and its rows are the surviving roster accounts after a stable
  sort on the pair of keys (Username, Account): the keys ascend; no null label comes before
  a label; labels that are strings ascend, labels that are numbers ascend, and no string
  label comes before a number label; under equal labels the identities ascend; and rows
  with the same keys keep their roster order. When no label field resolves on the roster,
  every Username is null and the Account column is the sorted list of the surviving
  identities.
\<close>

theorem report_sorted_by_username_then_account:
  assumes "columns accounts_df = [] \<longrightarrow> rows accounts_df = []"
  shows "(\<exists>report. build_report_dataframe accounts_df usage_df askai_df = Inr report
              \<and> map (\<lambda>row. (cells row ''Username'', cells row ''Account'')) (rows report)
                  = sort_key (\<lambda>p. [cell_key (fst p), cell_key (snd p)])
                      (map (\<lambda>r. (roster_username accounts_df r, Str (roster_account accounts_df r)))
                         (surviving accounts_df))
              \<and> sorted (map (row_key [''Username'', ''Account'']) (rows report))
              \<and> (\<forall>i j. i < j \<and> j < length (rows report) \<longrightarrow>
                    (isna (cells (rows report ! i) ''Username'')
                       \<longrightarrow> isna (cells (rows report ! j) ''Username''))
                  \<and> (\<forall>s t. cells (rows report ! i) ''Username'' = Str s
                             \<and> cells (rows report ! j) ''Username'' = Str t \<longrightarrow> s \<le> t)
                  \<and> (\<forall>m n. cells (rows report ! i) ''Username'' = Num m
                             \<and> cells (rows report ! j) ''Username'' = Num n \<longrightarrow> m \<le> n)
                  \<and> (\<forall>s n. cells (rows report ! i) ''Username'' = Str s
                             \<longrightarrow> cells (rows report ! j) ''Username'' \<noteq> Num n)
                  \<and> (\<forall>a b. cells (rows report ! i) ''Username'' = cells (rows report ! j) ''Username''
                             \<and> cells (rows report ! i) ''Account'' = Str a
                             \<and> cells (rows report ! j) ''Account'' = Str b \<longrightarrow> a \<le> b))
              \<and> (\<forall>k. map (\<lambda>row. (cells row ''Username'', cells row ''Account''))
                         (filter (\<lambda>row. row_key [''Username'', ''Account''] row = k) (rows report))
                       = filter (\<lambda>p. [cell_key (fst p), cell_key (snd p)] = k)
                           (map (\<lambda>r. (roster_username accounts_df r,
                                       Str (roster_account accounts_df r)))
                              (surviving accounts_df))))
       \<and> (find_first_column accounts_df USERNAME_ALIASES = None \<longrightarrow>
           (\<exists>report. build_report_dataframe accounts_df usage_df askai_df = Inr report
              \<and> (\<forall>row \<in> set (rows report). cells row ''Username'' = PyNone)
              \<and> map (\<lambda>row. cells row ''Account'') (rows report)
                  = map Str (sort (map (roster_account accounts_df) (surviving accounts_df)))))"
proof (intro conjI impI)
  from build_report_view [OF assms, of usage_df askai_df]
  obtain report where b: "build_report_dataframe accounts_df usage_df askai_df = Inr report"
    and v: "map report_view (rows report)
              = sort_key view_key
                  (map (expected_view accounts_df usage_df askai_df) (surviving accounts_df))"
    by blast
  note sr = sorted_report [OF v]
  have order: "map (\<lambda>row. (cells row ''Username'', cells row ''Account'')) (rows report)
                  = sort_key (\<lambda>p. [cell_key (fst p), cell_key (snd p)])
                      (map (\<lambda>r. (roster_username accounts_df r, Str (roster_account accounts_df r)))
                         (surviving accounts_df))"
  proof -
    have "map (\<lambda>row. (cells row ''Username'', cells row ''Account'')) (rows report)
            = map (\<lambda>v. (fst (snd v), fst v)) (map report_view (rows report))"
      by (simp add: report_view_def comp_def)
    also have "\<dots> = map (\<lambda>v. (fst (snd v), fst v))
        (sort_key (\<lambda>v. [cell_key (fst (fst (snd v), fst v)), cell_key (snd (fst (snd v), fst v))])
          (map (expected_view accounts_df usage_df askai_df) (surviving accounts_df)))"
      unfolding v by (simp add: view_key_def [abs_def])
    also have "\<dots> = sort_key (\<lambda>p. [cell_key (fst p), cell_key (snd p)])
        (map (\<lambda>v. (fst (snd v), fst v))
           (map (expected_view accounts_df usage_df askai_df) (surviving accounts_df)))"
      by (rule sort_key_map)
    finally show ?thesis by (simp add: expected_view_def comp_def)
  qed
  have pairwise: "(isna (cells (rows report ! i) ''Username'')
                       \<longrightarrow> isna (cells (rows report ! j) ''Username''))
                  \<and> (\<forall>s t. cells (rows report ! i) ''Username'' = Str s
                             \<and> cells (rows report ! j) ''Username'' = Str t \<longrightarrow> s \<le> t)
                  \<and> (\<forall>m n. cells (rows report ! i) ''Username'' = Num m
                             \<and> cells (rows report ! j) ''Username'' = Num n \<longrightarrow> m \<le> n)
                  \<and> (\<forall>s n. cells (rows report ! i) ''Username'' = Str s
                             \<longrightarrow> cells (rows report ! j) ''Username'' \<noteq> Num n)
                  \<and> (\<forall>a b. cells (rows report ! i) ''Username'' = cells (rows report ! j) ''Username''
                             \<and> cells (rows report ! i) ''Account'' = Str a
                             \<and> cells (rows report ! j) ''Account'' = Str b \<longrightarrow> a \<le> b)"
    if "i < j \<and> j < length (rows report)" for i j
  proof -
    from that have le: "row_key [''Username'', ''Account''] (rows report ! i)
                          \<le> row_key [''Username'', ''Account''] (rows report ! j)"
      using sorted_rows_nth [OF sr(1)] by blast
    note rk = row_key_le [OF le]
    show ?thesis by (intro conjI allI rk)
  qed
  have stable: "map (\<lambda>row. (cells row ''Username'', cells row ''Account''))
                         (filter (\<lambda>row. row_key [''Username'', ''Account''] row = k) (rows report))
                       = filter (\<lambda>p. [cell_key (fst p), cell_key (snd p)] = k)
                           (map (\<lambda>r. (roster_username accounts_df r,
                                       Str (roster_account accounts_df r)))
                              (surviving accounts_df))" for k
    unfolding sr(2)
    by (simp add: filter_map comp_def view_key_def expected_view_def)
  have pw: "\<forall>i j. i < j \<and> j < length (rows report) \<longrightarrow>
                    (isna (cells (rows report ! i) ''Username'')
                       \<longrightarrow> isna (cells (rows report ! j) ''Username''))
                  \<and> (\<forall>s t. cells (rows report ! i) ''Username'' = Str s
                             \<and> cells (rows report ! j) ''Username'' = Str t \<longrightarrow> s \<le> t)
                  \<and> (\<forall>m n. cells (rows report ! i) ''Username'' = Num m
                             \<and> cells (rows report ! j) ''Username'' = Num n \<longrightarrow> m \<le> n)
                  \<and> (\<forall>s n. cells (rows report ! i) ''Username'' = Str s
                             \<longrightarrow> cells (rows report ! j) ''Username'' \<noteq> Num n)
                  \<and> (\<forall>a b. cells (rows report ! i) ''Username'' = cells (rows report ! j) ''Username''
                             \<and> cells (rows report ! i) ''Account'' = Str a
                             \<and> cells (rows report ! j) ''Account'' = Str b \<longrightarrow> a \<le> b)"
  proof (intro allI impI)
    fix i j assume "i < j \<and> j < length (rows report)"
    then show "(isna (cells (rows report ! i) ''Username'')
                       \<longrightarrow> isna (cells (rows report ! j) ''Username''))
                  \<and> (\<forall>s t. cells (rows report ! i) ''Username'' = Str s
                             \<and> cells (rows report ! j) ''Username'' = Str t \<longrightarrow> s \<le> t)
                  \<and> (\<forall>m n. cells (rows report ! i) ''Username'' = Num m
                             \<and> cells (rows report ! j) ''Username'' = Num n \<longrightarrow> m \<le> n)
                  \<and> (\<forall>s n. cells (rows report ! i) ''Username'' = Str s
                             \<longrightarrow> cells (rows report ! j) ''Username'' \<noteq> Num n)
                  \<and> (\<forall>a b. cells (rows report ! i) ''Username'' = cells (rows report ! j) ''Username''
                             \<and> cells (rows report ! i) ''Account'' = Str a
                             \<and> cells (rows report ! j) ''Account'' = Str b \<longrightarrow> a \<le> b)"
      by (rule pairwise)
  qed
  have st: "\<forall>k. map (\<lambda>row. (cells row ''Username'', cells row ''Account''))
                         (filter (\<lambda>row. row_key [''Username'', ''Account''] row = k) (rows report))
                       = filter (\<lambda>p. [cell_key (fst p), cell_key (snd p)] = k)
                           (map (\<lambda>r. (roster_username accounts_df r,
                                       Str (roster_account accounts_df r)))
                              (surviving accounts_df))"
    by (rule allI) (rule stable)
  show "\<exists>report. build_report_dataframe accounts_df usage_df askai_df = Inr report
              \<and> map (\<lambda>row. (cells row ''Username'', cells row ''Account'')) (rows report)
                  = sort_key (\<lambda>p. [cell_key (fst p), cell_key (snd p)])
                      (map (\<lambda>r. (roster_username accounts_df r, Str (roster_account accounts_df r)))
                         (surviving accounts_df))
              \<and> sorted (map (row_key [''Username'', ''Account'']) (rows report))
              \<and> (\<forall>i j. i < j \<and> j < length (rows report) \<longrightarrow>
                    (isna (cells (rows report ! i) ''Username'')
                       \<longrightarrow> isna (cells (rows report ! j) ''Username''))
                  \<and> (\<forall>s t. cells (rows report ! i) ''Username'' = Str s
                             \<and> cells (rows report ! j) ''Username'' = Str t \<longrightarrow> s \<le> t)
                  \<and> (\<forall>m n. cells (rows report ! i) ''Username'' = Num m
                             \<and> cells (rows report ! j) ''Username'' = Num n \<longrightarrow> m \<le> n)
                  \<and> (\<forall>s n. cells (rows report ! i) ''Username'' = Str s
                             \<longrightarrow> cells (rows report ! j) ''Username'' \<noteq> Num n)
                  \<and> (\<forall>a b. cells (rows report ! i) ''Username'' = cells (rows report ! j) ''Username''
                             \<and> cells (rows report ! i) ''Account'' = Str a
                             \<and> cells (rows report ! j) ''Account'' = Str b \<longrightarrow> a \<le> b))
              \<and> (\<forall>k. map (\<lambda>row. (cells row ''Username'', cells row ''Account''))
                         (filter (\<lambda>row. row_key [''Username'', ''Account''] row = k) (rows report))
                       = filter (\<lambda>p. [cell_key (fst p), cell_key (snd p)] = k)
                           (map (\<lambda>r. (roster_username accounts_df r,
                                       Str (roster_account accounts_df r)))
                              (surviving accounts_df)))"
    by (intro exI [of _ report] conjI b order sr(1) pw st)
next
  assume none: "find_first_column accounts_df USERNAME_ALIASES = None"
  then have null: "\<forall>r \<in> set (surviving accounts_df). roster_username accounts_df r = PyNone"
    by (simp add: roster_username_def)
  from build_report_view [OF assms, of usage_df askai_df]
  obtain report where b: "build_report_dataframe accounts_df usage_df askai_df = Inr report"
    and v: "map report_view (rows report)
              = sort_key view_key
                  (map (expected_view accounts_df usage_df askai_df) (surviving accounts_df))"
    by blast
  have "cells row ''Username'' = PyNone" if "row \<in> set (rows report)" for row
  proof -
    from sorted_views(2) [OF v] that obtain r where
      "r \<in> set (surviving accounts_df)"
      "report_view row = expected_view accounts_df usage_df askai_df r" by blast
    then show ?thesis using expected_view_cells(2) null by simp
  qed
  moreover have "map (\<lambda>row. cells row ''Account'') (rows report)
                  = map Str (sort (map (roster_account accounts_df) (surviving accounts_df)))"
  proof -
    have "map (\<lambda>row. cells row ''Account'') (rows report) = map fst (map report_view (rows report))"
      by (simp add: report_view_def comp_def)
    then show ?thesis unfolding v using account_only_order [OF null] by simp
  qed
  ultimately show "\<exists>report. build_report_dataframe accounts_df usage_df askai_df = Inr report
              \<and> (\<forall>row \<in> set (rows report). cells row ''Username'' = PyNone)
              \<and> map (\<lambda>row. cells row ''Account'') (rows report)
                  = map Str (sort (map (roster_account accounts_df) (surviving accounts_df)))"
    using b by blast
qed

text \<open>
  The example roster comes out as Alice, Zed, and last the account without a label; the
  roster with a number among its labels comes out with the number first, then Alice and
  Zed, and the account without a label last; the roster without a label field comes out in
  the order of its identities.
\<close>

theorem report_sorted_by_username_then_account_witness:
  "(\<exists>report. build_report_dataframe example_roster example_usage example_askai = Inr report
      \<and> map (\<lambda>row. (cells row ''Username'', cells row ''Account'')) (rows report)
          = [(Str ''Alice'', Str ''a@x.com''), (Str ''Zed'', Str ''z@x.com''),
             (NaN, Str ''b@x.com'')])
   \<and> (\<exists>report. build_report_dataframe mixed_roster example_usage example_askai = Inr report
      \<and> map (\<lambda>row. (cells row ''Username'', cells row ''Account'')) (rows report)
          = [(Num 7, Str ''n@x.com''), (Str ''Alice'', Str ''a@x.com''),
             (Str ''Zed'', Str ''z@x.com''), (NaN, Str ''b@x.com'')])
   \<and> (\<exists>report. build_report_dataframe unnamed_roster example_usage example_askai = Inr report
      \<and> (\<forall>row \<in> set (rows report). cells row ''Username'' = PyNone)
      \<and> map (\<lambda>row. cells row ''Account'') (rows report) = [Str ''a@x.com'', Str ''z@x.com''])"
proof -
  have wf: "columns example_roster = [] \<longrightarrow> rows example_roster = []"
    by (simp add: example_roster_def)
  have p: "map (\<lambda>r. (roster_username example_roster r, Str (roster_account example_roster r)))
             (surviving example_roster)
           = [(Str ''Zed'', Str ''z@x.com''), (NaN, Str ''b@x.com''), (Str ''Alice'', Str ''a@x.com'')]"
    using arg_cong [OF example_surviving, of "map (\<lambda>p. (snd p, Str (fst p)))"]
    by (simp add: comp_def)
  have sorted_pairs: "sort_key (\<lambda>p. [cell_key (fst p), cell_key (snd p)])
        [(Str ''Zed'', Str ''z@x.com''), (NaN, Str ''b@x.com''), (Str ''Alice'', Str ''a@x.com'')]
      = [(Str ''Alice'', Str ''a@x.com''), (Str ''Zed'', Str ''z@x.com''), (NaN, Str ''b@x.com'')]"
    by (simp add: cell_key_def isna_def is_Str_def)
  have wf1: "columns mixed_roster = [] \<longrightarrow> rows mixed_roster = []"
    by (simp add: mixed_roster_def)
  have p1: "map (\<lambda>r. (roster_username mixed_roster r, Str (roster_account mixed_roster r)))
             (surviving mixed_roster)
           = [(Str ''Zed'', Str ''z@x.com''), (NaN, Str ''b@x.com''), (Num 7, Str ''n@x.com''),
              (Str ''Alice'', Str ''a@x.com'')]"
    by (simp add: mixed_roster_def example_eval)
  have sorted_pairs1: "sort_key (\<lambda>p. [cell_key (fst p), cell_key (snd p)])
        [(Str ''Zed'', Str ''z@x.com''), (NaN, Str ''b@x.com''), (Num 7, Str ''n@x.com''),
         (Str ''Alice'', Str ''a@x.com'')]
      = [(Num 7, Str ''n@x.com''), (Str ''Alice'', Str ''a@x.com''),
         (Str ''Zed'', Str ''z@x.com''), (NaN, Str ''b@x.com'')]"
    by (simp add: cell_key_def isna_def is_Str_def)
  have wf2: "columns unnamed_roster = [] \<longrightarrow> rows unnamed_roster = []"
    by (simp add: unnamed_roster_def)
  have none: "find_first_column unnamed_roster USERNAME_ALIASES = None"
    by (simp add: unnamed_roster_def USERNAME_ALIASES_def)
  have accounts2: "sort (map (roster_account unnamed_roster) (surviving unnamed_roster))
                     = [''a@x.com'', ''z@x.com'']"
    by (simp add: unnamed_roster_def example_eval)
  note t1 = report_sorted_by_username_then_account
         [OF wf, of example_usage example_askai, THEN conjunct1]
  have first: "\<exists>report. build_report_dataframe example_roster example_usage example_askai = Inr report
      \<and> map (\<lambda>row. (cells row ''Username'', cells row ''Account'')) (rows report)
          = [(Str ''Alice'', Str ''a@x.com''), (Str ''Zed'', Str ''z@x.com''),
             (NaN, Str ''b@x.com'')]"
  proof -
    from t1 obtain report where
      r: "build_report_dataframe example_roster example_usage example_askai = Inr report"
        "map (\<lambda>row. (cells row ''Username'', cells row ''Account'')) (rows report)
          = sort_key (\<lambda>p. [cell_key (fst p), cell_key (snd p)])
              (map (\<lambda>r. (roster_username example_roster r, Str (roster_account example_roster r)))
                 (surviving example_roster))"
      by (elim exE conjE)
    from r(2) have "map (\<lambda>row. (cells row ''Username'', cells row ''Account'')) (rows report)
          = [(Str ''Alice'', Str ''a@x.com''), (Str ''Zed'', Str ''z@x.com''),
             (NaN, Str ''b@x.com'')]"
      by (simp only: p sorted_pairs)
    with r(1) show ?thesis by (intro exI [of _ report] conjI)
  qed
  note t2 = report_sorted_by_username_then_account
         [OF wf1, of example_usage example_askai, THEN conjunct1]
  have mixed: "\<exists>report. build_report_dataframe mixed_roster example_usage example_askai = Inr report
      \<and> map (\<lambda>row. (cells row ''Username'', cells row ''Account'')) (rows report)
          = [(Num 7, Str ''n@x.com''), (Str ''Alice'', Str ''a@x.com''),
             (Str ''Zed'', Str ''z@x.com''), (NaN, Str ''b@x.com'')]"
  proof -
    from t2 obtain report where
      r: "build_report_dataframe mixed_roster example_usage example_askai = Inr report"
        "map (\<lambda>row. (cells row ''Username'', cells row ''Account'')) (rows report)
          = sort_key (\<lambda>p. [cell_key (fst p), cell_key (snd p)])
              (map (\<lambda>r. (roster_username mixed_roster r, Str (roster_account mixed_roster r)))
                 (surviving mixed_roster))"
      by (elim exE conjE)
    from r(2) have "map (\<lambda>row. (cells row ''Username'', cells row ''Account'')) (rows report)
          = [(Num 7, Str ''n@x.com''), (Str ''Alice'', Str ''a@x.com''),
             (Str ''Zed'', Str ''z@x.com''), (NaN, Str ''b@x.com'')]"
      by (simp only: p1 sorted_pairs1)
    with r(1) show ?thesis by (intro exI [of _ report] conjI)
  qed
  from report_sorted_by_username_then_account
         [OF wf2, of example_usage example_askai, THEN conjunct2, rule_format, OF none]
  have second: "\<exists>report. build_report_dataframe unnamed_roster example_usage example_askai = Inr report
      \<and> (\<forall>row \<in> set (rows report). cells row ''Username'' = PyNone)
      \<and> map (\<lambda>row. cells row ''Account'') (rows report) = [Str ''a@x.com'', Str ''z@x.com'']"
    unfolding accounts2 by simp
  from first mixed second show ?thesis by (intro conjI)
qed

lemma usage_count_no_types: "usage_count usage_df [] a = 0"
  by (simp add: usage_count_def split: option.splits)

text \<open>
  C10. The metric table maps Logins and Uploads to the empty list of usage types, the
  aggregator returns the empty table of counts for the empty list, and on every roster,
  every frame of usage events and every frame of ask-AI events the assembler returns a
  report whose every row has 0 in both columns.
\<close>

theorem logins_and_uploads_always_zero:
  "map_of METRICS_USAGE_TYPE_MAP ''Logins'' = Some []
   \<and> map_of METRICS_USAGE_TYPE_MAP ''Uploads'' = Some []
   \<and> count_usage_by_account usage_df [] = \<lparr>columns = [''account'', ''count''], rows = []\<rparr>
   \<and> (\<exists>report. build_report_dataframe accounts_df usage_df askai_df = Inr report
         \<and> (\<forall>row \<in> set (rows report). cells row ''Logins'' = Num 0 \<and> cells row ''Uploads'' = Num 0))"
proof -
  have m: "(''Logins'', []) \<in> set METRICS_USAGE_TYPE_MAP" "(''Uploads'', []) \<in> set METRICS_USAGE_TYPE_MAP"
    by (simp_all add: METRICS_USAGE_TYPE_MAP_def)
  have zero: "\<exists>report. build_report_dataframe accounts_df usage_df askai_df = Inr report
         \<and> (\<forall>row \<in> set (rows report). cells row ''Logins'' = Num 0 \<and> cells row ''Uploads'' = Num 0)"
  proof (cases "empty accounts_df")
    case True
    then show ?thesis by (simp add: build_report_empty)
  next
    case False
    from build_report_rows [OF False, of usage_df askai_df]
    obtain report where b: "build_report_dataframe accounts_df usage_df askai_df = Inr report"
      and v: "map report_view (rows report)
              = sort_key view_key
                  (map (expected_view accounts_df usage_df askai_df) (surviving accounts_df))"
      by blast
    have "cells row ''Logins'' = Num 0 \<and> cells row ''Uploads'' = Num 0"
      if row: "row \<in> set (rows report)" for row
    proof -
      from sorted_views(2) [OF v] row obtain r where
        e: "report_view row = expected_view accounts_df usage_df askai_df r" by blast
      show ?thesis
        using expected_view_cells(4) [OF e m(1)] expected_view_cells(4) [OF e m(2)]
        by (simp add: usage_count_no_types)
    qed
    with b show ?thesis by blast
  qed
  have "map_of METRICS_USAGE_TYPE_MAP ''Logins'' = Some []"
    "map_of METRICS_USAGE_TYPE_MAP ''Uploads'' = Some []"
    by (simp_all add: METRICS_USAGE_TYPE_MAP_def)
  moreover have "count_usage_by_account usage_df [] = \<lparr>columns = [''account'', ''count''], rows = []\<rparr>"
    by (simp add: count_usage_by_account_def empty_counts_def)
  ultimately show ?thesis using zero by (intro conjI)
qed

text \<open>The four rows of the report on the roster with a number among its labels.\<close>

theorem logins_and_uploads_always_zero_witness:
  "\<exists>report. build_report_dataframe mixed_roster example_usage example_askai = Inr report
     \<and> length (rows report) = 4
     \<and> (\<forall>row \<in> set (rows report). cells row ''Logins'' = Num 0 \<and> cells row ''Uploads'' = Num 0)"
proof -
  have wf: "columns mixed_roster = [] \<longrightarrow> rows mixed_roster = []"
    by (simp add: mixed_roster_def)
  have n: "length (surviving mixed_roster) = 4"
    by (simp add: mixed_roster_def example_eval)
  from build_report_view [OF wf, of example_usage example_askai]
  obtain report' where b': "build_report_dataframe mixed_roster example_usage example_askai = Inr report'"
    and v: "map report_view (rows report')
              = sort_key view_key
                  (map (expected_view mixed_roster example_usage example_askai)
                     (surviving mixed_roster))"
    by blast
  have len: "length (rows report') = 4" using sorted_views(1) [OF v] n by simp
  from logins_and_uploads_always_zero [of example_usage mixed_roster example_askai]
  obtain report where b: "build_report_dataframe mixed_roster example_usage example_askai = Inr report"
    and z: "\<forall>row \<in> set (rows report). cells row ''Logins'' = Num 0 \<and> cells row ''Uploads'' = Num 0"
    by (elim conjE exE)
  from b b' have "report = report'" by simp
  with len have "length (rows report) = 4" by simp
  with b z show ?thesis by (intro exI [of _ report] conjI)
qed

end
